theory Spec2Isabelle
  imports Complex_Main "HOL-Library.Word"
begin

unbundle bit_operations_syntax

section \<open>Numbers\<close>

text \<open>
  A JavaScript number is a binary64 value. The finite ones are real numbers, and
  every arithmetic operation returns the exact result rounded to the nearest
  binary64 value, ties to the even significand. \<open>roundToDouble\<close> is that
  rounding: the exponent of the binade of \<open>x\<close>, not below -1022 (below it the
  values are subnormal and the spacing stays at \<open>2 powr - 1074\<close>), gives the
  spacing \<open>q\<close> of the binary64 values around \<open>x\<close>, and \<open>x / q\<close> is rounded to
  an integer. Comparisons of numbers are exact. NaN and the infinities are not
  values of the model: a result of magnitude \<open>2 ^ 1024\<close> or more, which
  JavaScript turns into an infinity, is outside it.
\<close>

definition roundHalfEven :: "real \<Rightarrow> int" where
  "roundHalfEven y =
     (let f = \<lfloor>y\<rfloor>; d = y - of_int f
      in if d < 1 / 2 then f
         else if d > 1 / 2 then f + 1
         else if even f then f else f + 1)"

definition binadeExponent :: "real \<Rightarrow> int" where
  "binadeExponent x = max (- 1022) \<lfloor>log 2 \<bar>x\<bar>\<rfloor>"

definition roundToDouble :: "real \<Rightarrow> real" where
  "roundToDouble x =
     (if x = 0 then 0
      else let q = 2 powr of_int (binadeExponent x - 52)
           in of_int (roundHalfEven (x / q)) * q)"

text \<open>The four operations on numbers, each rounded once.\<close>

definition numAdd :: "real \<Rightarrow> real \<Rightarrow> real" where
  "numAdd a b = roundToDouble (a + b)"

definition numSub :: "real \<Rightarrow> real \<Rightarrow> real" where
  "numSub a b = roundToDouble (a - b)"

definition numMul :: "real \<Rightarrow> real \<Rightarrow> real" where
  "numMul a b = roundToDouble (a * b)"

definition numDiv :: "real \<Rightarrow> real \<Rightarrow> real" where
  "numDiv a b = roundToDouble (a / b)"


section \<open>Spatial query worker (workers/spatialWorker.ts)\<close>

text \<open>
  Record fields carry a prefix (\<open>p_x\<close> for \<open>Point2D.x\<close>, \<open>c_x\<close> for
  \<open>CompanyPoint.x\<close>) so that the letters stay free for variables. The
  arithmetic of the worker is the rounded one.
\<close>

record CompanyPoint =
  ticker :: string
  c_x :: real
  c_y :: real
  c_z :: real

record Point2D =
  p_x :: real
  p_y :: real

text \<open>
  \<open>selectInRectangle\<close>, \<open>selectInCircle\<close> and \<open>selectInPolygon\<close> walk over
  \<open>allCoords\<close> in order and push every company that passes the test: a filter.
\<close>

definition selectInRectangle :: "Point2D \<Rightarrow> Point2D \<Rightarrow> CompanyPoint list \<Rightarrow> CompanyPoint list" where
  "selectInRectangle mn mx allCoords =
     filter (\<lambda>company.
        c_x company \<ge> p_x mn \<and> c_x company \<le> p_x mx \<and>
        c_z company \<ge> p_y mn \<and> c_z company \<le> p_y mx) allCoords"

definition selectInCircle :: "Point2D \<Rightarrow> real \<Rightarrow> CompanyPoint list \<Rightarrow> CompanyPoint list" where
  "selectInCircle center radius allCoords =
     (let radiusSq = numMul radius radius in
      filter (\<lambda>company.
        let dx = numSub (c_x company) (p_x center);
            dz = numSub (c_z company) (p_y center)
        in numAdd (numMul dx dx) (numMul dz dz) \<le> radiusSq) allCoords)"

text \<open>
  \<open>isPointInPolygon\<close>: the loop \<open>for (i = 0, j = n - 1; i < n; j = i++)\<close> visits
  every edge from vertex \<open>j\<close> to vertex \<open>i\<close>, \<open>j\<close> being the index before \<open>i\<close>
  and the last index for \<open>i = 0\<close>. The right operand of \<open>&&\<close> is evaluated only
  when the two vertices lie on different sides of the ray; the difference of two
  distinct binary64 values does not round to zero, so \<open>yj - yi\<close> is not zero
  where the division is made.
\<close>

definition edgeIntersect :: "Point2D \<Rightarrow> Point2D \<Rightarrow> Point2D \<Rightarrow> bool" where
  "edgeIntersect point vi vj =
     (let x = p_x point; y = p_y point;
          xi = p_x vi; yi = p_y vi;
          xj = p_x vj; yj = p_y vj
      in ((yi > y) \<noteq> (yj > y)) \<and>
         (x < numAdd (numDiv (numMul (numSub xj xi) (numSub y yi)) (numSub yj yi)) xi))"

definition isPointInPolygon :: "Point2D \<Rightarrow> Point2D list \<Rightarrow> bool" where
  "isPointInPolygon point polygon =
     fold (\<lambda>i inside.
        let j = (if i = 0 then length polygon - 1 else i - 1) in
        if edgeIntersect point (polygon ! i) (polygon ! j) then \<not> inside else inside)
       [0 ..< length polygon] False"

definition selectInPolygon :: "Point2D list \<Rightarrow> CompanyPoint list \<Rightarrow> CompanyPoint list" where
  "selectInPolygon polygonPoints allCoords =
     (if length polygonPoints < 3 then []
      else filter (\<lambda>company.
             isPointInPolygon \<lparr>p_x = c_x company, p_y = c_z company\<rparr> polygonPoints) allCoords)"

text \<open>
  \<open>SpatialWorkerManager.selectInCircle\<close> (utils/spatialWorkerManager.ts): without a
  worker the answer is the empty list, otherwise the worker's answer. The worker's
  method raises nothing, so the \<open>catch\<close> branch is never taken.
\<close>

definition managerSelectInCircle ::
  "bool \<Rightarrow> Point2D \<Rightarrow> real \<Rightarrow> CompanyPoint list \<Rightarrow> CompanyPoint list" where
  "managerSelectInCircle spatialAPI center radius allCoords =
     (if \<not> spatialAPI then [] else selectInCircle center radius allCoords)"


section \<open>Region colouring (utils/stateColors.ts)\<close>

text \<open>
  \<open>stateAdjacency\<close> is an object literal used as a dictionary from a state's name
  to the names of its neighbours. It is kept as the association list of its
  entries, in the order of the source; \<open>adjacencyOf\<close> is the lookup
  \<open>stateAdjacency[name]\<close> of an own property, \<open>None\<close> standing for
  \<open>undefined\<close>.
\<close>

definition stateAdjacency :: "(string \<times> string list) list" where
  "stateAdjacency = [
    (''Alabama'', [''Mississippi'', ''Tennessee'', ''Georgia'', ''Florida'']),
    (''Alaska'', []),
    (''Arizona'', [''California'', ''Nevada'', ''Utah'', ''Colorado'', ''New Mexico'']),
    (''Arkansas'', [''Missouri'', ''Tennessee'', ''Mississippi'', ''Louisiana'', ''Texas'', ''Oklahoma'']),
    (''California'', [''Oregon'', ''Nevada'', ''Arizona'']),
    (''Colorado'', [''Wyoming'', ''Nebraska'', ''Kansas'', ''Oklahoma'', ''New Mexico'', ''Arizona'', ''Utah'']),
    (''Connecticut'', [''Massachusetts'', ''Rhode Island'', ''New York'']),
    (''Delaware'', [''Maryland'', ''Pennsylvania'', ''New Jersey'']),
    (''Florida'', [''Georgia'', ''Alabama'']),
    (''Georgia'', [''Florida'', ''Alabama'', ''Tennessee'', ''North Carolina'', ''South Carolina'']),
    (''Hawaii'', []),
    (''Idaho'', [''Montana'', ''Wyoming'', ''Utah'', ''Nevada'', ''Oregon'', ''Washington'']),
    (''Illinois'', [''Wisconsin'', ''Indiana'', ''Kentucky'', ''Missouri'', ''Iowa'']),
    (''Indiana'', [''Michigan'', ''Ohio'', ''Kentucky'', ''Illinois'']),
    (''Iowa'', [''Minnesota'', ''Wisconsin'', ''Illinois'', ''Missouri'', ''Nebraska'', ''South Dakota'']),
    (''Kansas'', [''Nebraska'', ''Missouri'', ''Oklahoma'', ''Colorado'']),
    (''Kentucky'', [''Indiana'', ''Ohio'', ''West Virginia'', ''Virginia'', ''Tennessee'', ''Missouri'', ''Illinois'']),
    (''Louisiana'', [''Arkansas'', ''Mississippi'', ''Texas'']),
    (''Maine'', [''New Hampshire'']),
    (''Maryland'', [''Delaware'', ''Pennsylvania'', ''West Virginia'', ''Virginia'']),
    (''Massachusetts'', [''Rhode Island'', ''Connecticut'', ''New York'', ''Vermont'', ''New Hampshire'']),
    (''Michigan'', [''Ohio'', ''Indiana'', ''Wisconsin'']),
    (''Minnesota'', [''Wisconsin'', ''Iowa'', ''South Dakota'', ''North Dakota'']),
    (''Mississippi'', [''Louisiana'', ''Arkansas'', ''Tennessee'', ''Alabama'']),
    (''Missouri'', [''Iowa'', ''Illinois'', ''Kentucky'', ''Tennessee'', ''Arkansas'', ''Oklahoma'', ''Kansas'', ''Nebraska'']),
    (''Montana'', [''North Dakota'', ''South Dakota'', ''Wyoming'', ''Idaho'']),
    (''Nebraska'', [''South Dakota'', ''Iowa'', ''Missouri'', ''Kansas'', ''Colorado'', ''Wyoming'']),
    (''Nevada'', [''Idaho'', ''Utah'', ''Arizona'', ''California'', ''Oregon'']),
    (''New Hampshire'', [''Maine'', ''Massachusetts'', ''Vermont'']),
    (''New Jersey'', [''New York'', ''Pennsylvania'', ''Delaware'']),
    (''New Mexico'', [''Colorado'', ''Oklahoma'', ''Texas'', ''Arizona'']),
    (''New York'', [''Vermont'', ''Massachusetts'', ''Connecticut'', ''New Jersey'', ''Pennsylvania'']),
    (''North Carolina'', [''Virginia'', ''Tennessee'', ''Georgia'', ''South Carolina'']),
    (''North Dakota'', [''Minnesota'', ''South Dakota'', ''Montana'']),
    (''Ohio'', [''Pennsylvania'', ''West Virginia'', ''Kentucky'', ''Indiana'', ''Michigan'']),
    (''Oklahoma'', [''Kansas'', ''Missouri'', ''Arkansas'', ''Texas'', ''New Mexico'', ''Colorado'']),
    (''Oregon'', [''Washington'', ''Idaho'', ''Nevada'', ''California'']),
    (''Pennsylvania'', [''New York'', ''New Jersey'', ''Delaware'', ''Maryland'', ''West Virginia'', ''Ohio'']),
    (''Rhode Island'', [''Connecticut'', ''Massachusetts'']),
    (''South Carolina'', [''North Carolina'', ''Georgia'']),
    (''South Dakota'', [''North Dakota'', ''Minnesota'', ''Iowa'', ''Nebraska'', ''Wyoming'', ''Montana'']),
    (''Tennessee'', [''Kentucky'', ''Virginia'', ''North Carolina'', ''Georgia'', ''Alabama'', ''Mississippi'', ''Arkansas'', ''Missouri'']),
    (''Texas'', [''New Mexico'', ''Oklahoma'', ''Arkansas'', ''Louisiana'']),
    (''Utah'', [''Idaho'', ''Wyoming'', ''Colorado'', ''Arizona'', ''Nevada'']),
    (''Vermont'', [''New York'', ''New Hampshire'', ''Massachusetts'']),
    (''Virginia'', [''Maryland'', ''West Virginia'', ''Kentucky'', ''Tennessee'', ''North Carolina'']),
    (''Washington'', [''Idaho'', ''Oregon'']),
    (''West Virginia'', [''Pennsylvania'', ''Maryland'', ''Virginia'', ''Kentucky'', ''Ohio'']),
    (''Wisconsin'', [''Michigan'', ''Minnesota'', ''Iowa'', ''Illinois'']),
    (''Wyoming'', [''Montana'', ''South Dakota'', ''Nebraska'', ''Colorado'', ''Utah'', ''Idaho''])]"

definition adjacencyOf :: "string \<Rightarrow> string list option" where
  "adjacencyOf name = map_of stateAdjacency name"

text \<open>
  The property read \<open>stateAdjacency[name]\<close> finds more than the own entries:
  an object literal inherits the properties of \<open>Object.prototype\<close>. Under one
  of these names the read gives a function, or for \<open>__proto__\<close> the prototype
  object, and not \<open>undefined\<close>. \<open>objectPrototype\<close> lists the names, each with
  what \<open>?.length || 0\<close> makes of the value: the declared number of
  parameters of the function, and 0 for the prototype object.
\<close>

definition objectPrototype :: "(string \<times> nat) list" where
  "objectPrototype = [
    (''constructor'', 1),
    (''__defineGetter__'', 2),
    (''__defineSetter__'', 2),
    (''hasOwnProperty'', 1),
    (''__lookupGetter__'', 1),
    (''__lookupSetter__'', 1),
    (''isPrototypeOf'', 1),
    (''propertyIsEnumerable'', 1),
    (''toString'', 0),
    (''valueOf'', 0),
    (''__proto__'', 0),
    (''toLocaleString'', 0)]"

definition inheritedName :: "string \<Rightarrow> bool" where
  "inheritedName name = (map_of objectPrototype name \<noteq> None)"

datatype propertyValue = Undefined | Neighbors "string list" | Inherited nat

definition stateAdjacencyAt :: "string \<Rightarrow> propertyValue" where
  "stateAdjacencyAt name =
     (case adjacencyOf name of
        Some ns \<Rightarrow> Neighbors ns
      | None \<Rightarrow>
         (case map_of objectPrototype name of
            Some l \<Rightarrow> Inherited l
          | None \<Rightarrow> Undefined))"

text \<open>
  The palette, each colour written in decimal: \<open>0x3b82f6\<close> is 3900150 and so on.
\<close>

definition stateColorPalette :: "nat list" where
  "stateColorPalette =
     [3900150, 15680580, 1096065, 16096779, 9133302,
      440020, 16347926, 15485081, 6514417, 8702998]"

type_synonym colorMap = "string \<Rightarrow> nat option"

text \<open>\<open>stateAdjacency[a]?.length || 0\<close>\<close>

definition neighborCount :: "string \<Rightarrow> nat" where
  "neighborCount a =
     (case stateAdjacencyAt a of
        Undefined \<Rightarrow> 0
      | Neighbors ns \<Rightarrow> length ns
      | Inherited l \<Rightarrow> l)"

text \<open>
  \<open>[...states].sort((a, b) => bNeighbors - aNeighbors)\<close>: a stable sort by
  descending neighbour count.
\<close>

definition sortedStates :: "string list \<Rightarrow> string list" where
  "sortedStates states = sort_key (\<lambda>a. - int (neighborCount a)) states"

text \<open>The neighbours that the table lists for a state, none for a name it lacks.\<close>

definition neighborsOf :: "string \<Rightarrow> string list" where
  "neighborsOf state = (case adjacencyOf state of None \<Rightarrow> [] | Some ns \<Rightarrow> ns)"

text \<open>
  The colours of the neighbours. The names of \<open>neighbors\<close> come from the table,
  and \<open>stateColorMap\<close> holds a number under a name or nothing.
\<close>

definition usedColors :: "colorMap \<Rightarrow> string list \<Rightarrow> nat set" where
  "usedColors stateColorMap neighbors =
     fold (\<lambda>neighbor used.
        case stateColorMap neighbor of None \<Rightarrow> used | Some c \<Rightarrow> insert c used)
       neighbors {}"

text \<open>
  The loop \<open>while (usedColors.has(colorIndex) && colorIndex < stateColorPalette.length)
  colorIndex++\<close>, started by the caller at 0.
\<close>

function firstAvailable :: "nat set \<Rightarrow> nat \<Rightarrow> nat" where
  "firstAvailable used colorIndex =
     (if colorIndex \<in> used \<and> colorIndex < length stateColorPalette
      then firstAvailable used (colorIndex + 1) else colorIndex)"
  by pat_completeness auto
termination
  by (relation "measure (\<lambda>(used, colorIndex). length stateColorPalette - colorIndex)") auto

declare firstAvailable.simps [simp del]

text \<open>
  The body of the \<open>forEach\<close> callback once \<open>neighbors\<close> is an array, and the
  callback. \<open>stateAdjacency[state] || []\<close> is the array of the table, the empty
  array for \<open>undefined\<close>, and the inherited value for an inherited name: that
  value has no \<open>forEach\<close>, and the call \<open>neighbors.forEach(...)\<close> throws a
  TypeError.
\<close>

datatype jsError = TypeError

definition colorState :: "string list \<Rightarrow> string \<Rightarrow> colorMap \<Rightarrow> colorMap" where
  "colorState neighbors state stateColorMap =
     (let used = usedColors stateColorMap neighbors;
          colorIndex = firstAvailable used 0
      in stateColorMap(state \<mapsto> colorIndex mod length stateColorPalette))"

definition assignStep :: "string \<Rightarrow> colorMap \<Rightarrow> jsError + colorMap" where
  "assignStep state stateColorMap =
     (case stateAdjacencyAt state of
        Undefined \<Rightarrow> Inr (colorState [] state stateColorMap)
      | Neighbors ns \<Rightarrow> Inr (colorState ns state stateColorMap)
      | Inherited l \<Rightarrow> Inl TypeError)"

text \<open>
  \<open>sortedStates.forEach\<close>: the states in order, until a callback throws. The
  result is the error, if any, and the content of the module variable
  \<open>stateColorMap\<close> at that moment.
\<close>

fun assignAll :: "string list \<Rightarrow> colorMap \<Rightarrow> jsError option \<times> colorMap" where
  "assignAll [] stateColorMap = (None, stateColorMap)"
| "assignAll (state # rest) stateColorMap =
     (case assignStep state stateColorMap of
        Inl e \<Rightarrow> (Some e, stateColorMap)
      | Inr stateColorMap' \<Rightarrow> assignAll rest stateColorMap')"

text \<open>
  \<open>assignStateColors\<close> resets the module variable \<open>stateColorMap\<close>, fills it and
  returns it. \<open>assignStateColors states\<close> is the content of the variable after
  the call, which is the value returned when the call returns, and
  \<open>assignStateColorsError states\<close> is the error the call throws, if any.
  \<open>getStateColor\<close> takes the content of the variable as an argument.
\<close>

definition assignStateColors :: "string list \<Rightarrow> colorMap" where
  "assignStateColors states = snd (assignAll (sortedStates states) Map.empty)"

definition assignStateColorsError :: "string list \<Rightarrow> jsError option" where
  "assignStateColorsError states = fst (assignAll (sortedStates states) Map.empty)"

text \<open>
  The fallback hash of \<open>getStateColor\<close>:
  \<open>stateName.split('').reduce((acc, char) => char.charCodeAt(0) + ((acc << 5) - acc), 0)\<close>.
  \<open>acc << 5\<close> converts \<open>acc\<close> to a signed 32-bit integer, shifts it and reads the
  result as a signed 32-bit integer again; the subtraction and the sum are those of
  numbers, which are exact on integers of this size. A character is a \<open>char\<close>
  here, so names are limited to code units below 256.
\<close>

definition shiftLeft5 :: "int \<Rightarrow> int" where
  "shiftLeft5 acc = sint (push_bit 5 (word_of_int acc :: 32 word))"

definition nameHash :: "string \<Rightarrow> int" where
  "nameHash stateName = fold (\<lambda>char acc. of_char char + (shiftLeft5 acc - acc)) stateName 0"

text \<open>The remainder \<open>%\<close> of JavaScript takes the sign of the dividend.\<close>

definition jsRemainder :: "int \<Rightarrow> int \<Rightarrow> int" where
  "jsRemainder a b = sgn a * (\<bar>a\<bar> mod \<bar>b\<bar>)"

definition hashIndex :: "string \<Rightarrow> nat" where
  "hashIndex stateName = nat \<bar>jsRemainder (nameHash stateName) (int (length stateColorPalette))\<bar>"

text \<open>
  Reading the palette at an index; outside the array JavaScript gives
  \<open>undefined\<close>, here \<open>None\<close>. In \<open>getStateColor\<close> the read
  \<open>stateColorMap[stateName]\<close> of a name that the map lacks is \<open>undefined\<close>,
  unless the name is inherited from \<open>Object.prototype\<close>: then the hash branch
  is skipped and the palette is read at a function or an object, which gives
  \<open>undefined\<close>.
\<close>

definition paletteAt :: "nat \<Rightarrow> nat option" where
  "paletteAt i = (if i < length stateColorPalette then Some (stateColorPalette ! i) else None)"

definition getStateColor :: "colorMap \<Rightarrow> string \<Rightarrow> nat option" where
  "getStateColor stateColorMap stateName =
     (case stateColorMap stateName of
        Some i \<Rightarrow> paletteAt i
      | None \<Rightarrow>
          if inheritedName stateName then None
          else paletteAt (hashIndex stateName))"


section \<open>Camera handlers (hooks/useThreeJS.ts)\<close>

text \<open>
  The handlers read \<open>cameraRef.current\<close> and \<open>containerRef.current\<close>, which are
  unset before the scene is built: both are options here. Of the camera, the
  handlers read and write the position and the zoom. The arithmetic of this
  section is the exact one of the real numbers: the square root, the division
  and the products are not rounded, so a value computed here is the value of the
  program up to the rounding of its operations, and a division by zero, which
  gives an infinity or NaN in the program, is not represented.
\<close>

record Vector3 =
  v_x :: real
  v_y :: real
  v_z :: real

record Camera =
  position :: Vector3
  zoom :: real

record Container =
  clientWidth :: real
  clientHeight :: real

definition MIN_ZOOM :: real where "MIN_ZOOM = 0.8"
definition MAX_ZOOM :: real where "MAX_ZOOM = 250"
definition MAX_PAN_DISTANCE :: real where "MAX_PAN_DISTANCE = 2000"

text \<open>\<open>camera.position.set(0, 50, 0)\<close> in \<open>initScene\<close>; a new camera has zoom 1.\<close>

definition defaultCamera :: Camera where
  "defaultCamera = \<lparr>position = \<lparr>v_x = 0, v_y = 50, v_z = 0\<rparr>, zoom = 1\<rparr>"

definition handlePan :: "real \<Rightarrow> real \<Rightarrow> Camera option \<Rightarrow> Camera option" where
  "handlePan deltaX deltaY cameraRef =
     (case cameraRef of
        None \<Rightarrow> None
      | Some camera \<Rightarrow>
          let panSpeed = 2.5 / zoom camera;
              newX = v_x (position camera) - deltaX * panSpeed;
              newZ = v_z (position camera) - deltaY * panSpeed;
              maxDistance = MAX_PAN_DISTANCE;
              distanceFromCenter = sqrt (newX * newX + newZ * newZ)
          in if distanceFromCenter \<le> maxDistance
             then Some (camera\<lparr>position := (position camera)\<lparr>v_x := newX, v_z := newZ\<rparr>\<rparr>)
             else let scale = maxDistance / distanceFromCenter
                  in Some (camera\<lparr>position :=
                       (position camera)\<lparr>v_x := newX * scale, v_z := newZ * scale\<rparr>\<rparr>))"

text \<open>
  The vector operations of three.js that \<open>unprojectScreenCoords\<close> calls.
  \<open>normalize\<close> divides by the length, or by 1 when the length is 0.
\<close>

definition sub :: "Vector3 \<Rightarrow> Vector3 \<Rightarrow> Vector3" where
  "sub a b = \<lparr>v_x = v_x a - v_x b, v_y = v_y a - v_y b, v_z = v_z a - v_z b\<rparr>"

definition add :: "Vector3 \<Rightarrow> Vector3 \<Rightarrow> Vector3" where
  "add a b = \<lparr>v_x = v_x a + v_x b, v_y = v_y a + v_y b, v_z = v_z a + v_z b\<rparr>"

definition multiplyScalar :: "Vector3 \<Rightarrow> real \<Rightarrow> Vector3" where
  "multiplyScalar a s = \<lparr>v_x = v_x a * s, v_y = v_y a * s, v_z = v_z a * s\<rparr>"

definition vlength :: "Vector3 \<Rightarrow> real" where
  "vlength a = sqrt (v_x a * v_x a + v_y a * v_y a + v_z a * v_z a)"

definition normalize :: "Vector3 \<Rightarrow> Vector3" where
  "normalize a = (let l = vlength a in multiplyScalar a (1 / (if l = 0 then 1 else l)))"

text \<open>\<open>THREE.MathUtils.clamp(value, min, max)\<close> is \<open>Math.max(min, Math.min(max, value))\<close>.\<close>

definition clamp :: "real \<Rightarrow> real \<Rightarrow> real \<Rightarrow> real" where
  "clamp v lo hi = max lo (min hi v)"

text \<open>
  \<open>unprojectScreenCoords\<close>. The library call \<open>vec.unproject(camera)\<close> is the
  parameter \<open>unproject\<close>: it maps normalised device coordinates to world
  coordinates through the camera's matrices, which follow the camera's position
  and zoom.
\<close>

definition unprojectScreenCoords ::
  "(Camera \<Rightarrow> Vector3 \<Rightarrow> Vector3) \<Rightarrow> Camera option \<Rightarrow> Container option \<Rightarrow>
   real \<Rightarrow> real \<Rightarrow> Vector3 option" where
  "unprojectScreenCoords unproject cameraRef containerRef screenX screenY =
     (case cameraRef of
        None \<Rightarrow> None
      | Some camera \<Rightarrow>
         (case containerRef of
            None \<Rightarrow> None
          | Some container \<Rightarrow>
              let vec = unproject camera
                    \<lparr>v_x = (screenX / clientWidth container) * 2 - 1,
                     v_y = - (screenY / clientHeight container) * 2 + 1,
                     v_z = 0.5\<rparr>;
                  dir = normalize (sub vec (position camera));
                  distance = - v_y (position camera) / v_y dir
              in Some (add (position camera) (multiplyScalar dir distance))))"

definition handleZoom ::
  "(Camera \<Rightarrow> Vector3 \<Rightarrow> Vector3) \<Rightarrow> Container option \<Rightarrow>
   real \<Rightarrow> real \<Rightarrow> real \<Rightarrow> Camera option \<Rightarrow> Camera option" where
  "handleZoom unproject containerRef delta mouseX mouseY cameraRef =
     (case cameraRef of
        None \<Rightarrow> None
      | Some camera \<Rightarrow>
         (case containerRef of
            None \<Rightarrow> Some camera
          | Some container \<Rightarrow>
              let worldPosBefore =
                    unprojectScreenCoords unproject (Some camera) containerRef mouseX mouseY;
                  newZoom = clamp (zoom camera + delta * zoom camera * 0.5) MIN_ZOOM MAX_ZOOM;
                  zoomed = camera\<lparr>zoom := newZoom\<rparr>;
                  worldPosAfter =
                    unprojectScreenCoords unproject (Some zoomed) containerRef mouseX mouseY
              in (case worldPosBefore of
                    None \<Rightarrow> Some zoomed
                  | Some before \<Rightarrow>
                     (case worldPosAfter of
                        None \<Rightarrow> Some zoomed
                      | Some after \<Rightarrow>
                          let dx = v_x after - v_x before;
                              dz = v_z after - v_z before
                          in Some (zoomed\<lparr>position := (position zoomed)
                                \<lparr>v_x := v_x (position zoomed) + dx,
                                 v_z := v_z (position zoomed) + dz\<rparr>\<rparr>)))))"

text \<open>A sequence of pan and zoom events.\<close>

datatype cameraEvent = PanEvent real real | ZoomEvent real real real

fun handleEvent ::
  "(Camera \<Rightarrow> Vector3 \<Rightarrow> Vector3) \<Rightarrow> Container option \<Rightarrow>
   cameraEvent \<Rightarrow> Camera option \<Rightarrow> Camera option" where
  "handleEvent unproject containerRef (PanEvent deltaX deltaY) cameraRef =
     handlePan deltaX deltaY cameraRef"
| "handleEvent unproject containerRef (ZoomEvent delta mouseX mouseY) cameraRef =
     handleZoom unproject containerRef delta mouseX mouseY cameraRef"

definition handleEvents ::
  "(Camera \<Rightarrow> Vector3 \<Rightarrow> Vector3) \<Rightarrow> Container option \<Rightarrow>
   cameraEvent list \<Rightarrow> Camera option \<Rightarrow> Camera option" where
  "handleEvents unproject containerRef events cameraRef =
     fold (handleEvent unproject containerRef) events cameraRef"

text \<open>The distance of the camera from the origin in the ground plane.\<close>

definition groundDistance :: "Camera \<Rightarrow> real" where
  "groundDistance camera =
     sqrt (v_x (position camera) * v_x (position camera)
         + v_z (position camera) * v_z (position camera))"

text \<open>
  What \<open>Vector3.unproject\<close> of three.js computes for the camera of \<open>initScene\<close>,
  used where a concrete camera is evaluated: an orthographic camera with the
  frustum \<open>\<plusminus> frustumSize * aspect / 2\<close> by \<open>\<plusminus> frustumSize / 2\<close>, near plane 0.1 and
  far plane 1000, placed above the ground and looking down the y axis, so that
  the view's x axis is the world's x axis, the view's y axis the world's negative
  z axis and the view's z axis the world's y axis (\<open>lookAt\<close> tilts a view
  direction that is parallel to the up vector by 0.0001, which is left out).
  The camera's matrices are taken to follow its position and zoom, as they do
  once the render loop has run. The inverse projection scales
  the device coordinates by the half extents divided by the zoom, and maps the
  device depth \<open>d\<close> to the view depth \<open>- (d * (far - near) + (far + near)) / 2\<close>.
\<close>

definition orthographicUnproject :: "real \<Rightarrow> Camera \<Rightarrow> Vector3 \<Rightarrow> Vector3" where
  "orthographicUnproject aspect camera ndc =
     (let frustumSize = 1000; near = 0.1; far = 1000;
          viewX = v_x ndc * (frustumSize * aspect / 2) / zoom camera;
          viewY = v_y ndc * (frustumSize / 2) / zoom camera;
          viewZ = - (v_z ndc * (far - near) + (far + near)) / 2
      in \<lparr>v_x = v_x (position camera) + viewX,
          v_y = v_y (position camera) + viewZ,
          v_z = v_z (position camera) - viewY\<rparr>)"

section \<open>Store slices (store/slices/selectionSlice.ts, store/slices/mapSlice.ts)\<close>

text \<open>The types of types/state.ts and types/api.ts that the two slices hold.\<close>

datatype SelectionMode = ModePan | ModeRect | ModeCircle | ModePolygon | ModeLasso | ModeState

record BoundingBox =
  minX :: real
  maxX :: real
  minY :: real
  maxY :: real

record Point =
  pt_x :: real
  pt_y :: real

record SelectionGeometry =
  g_type :: SelectionMode
  g_bounds :: "BoundingBox option"
  g_center :: "Point option"
  g_radius :: "real option"
  g_points :: "Point list option"
  g_state :: "string option"
  g_start :: "Point option"
  g_current :: "Point option"

record TopCompany =
  tc_ticker :: string
  tc_name :: string
  tc_latest_close :: real
  tc_sector :: string

record RegionalStats =
  region_description :: string
  company_count :: real
  avg_price :: "real option"
  total_volume :: "real option"
  top_companies :: "TopCompany list option"

record SelectionHistoryEntry =
  h_id :: string
  h_timestamp :: nat
  h_companyIds :: "string list"
  h_stats :: RegionalStats
  h_mode :: SelectionMode
  h_geometry :: SelectionGeometry

record SelectionState =
  selectedCompanies :: "string set"
  selectionStats :: "RegionalStats option"
  selectionHistory :: "SelectionHistoryEntry list"
  isSelecting :: bool
  s_selectionMode :: SelectionMode

definition initialSelectionState :: SelectionState where
  "initialSelectionState =
     \<lparr>selectedCompanies = {}, selectionStats = None, selectionHistory = [],
      isSelecting = False, s_selectionMode = ModePan\<rparr>"

record HistoryPayload =
  companyIds :: "string list"
  stats :: RegionalStats
  mode :: SelectionMode
  geometry :: SelectionGeometry

text \<open>
  The decimal digits of a number, for the template string
  \<open>`selection_${Date.now()}`\<close>.
\<close>

fun decimal :: "nat \<Rightarrow> string" where
  "decimal n =
     (if n < 10 then [char_of (48 + n)]
      else decimal (n div 10) @ [char_of (48 + n mod 10)])"

declare decimal.simps [simp del]

text \<open>
  \<open>addToSelectionHistory\<close> reads the clock twice, once for the id and once for
  the timestamp: \<open>nowId\<close> and \<open>nowTimestamp\<close>. \<open>unshift\<close> puts the entry in
  front; \<open>slice(0, 50)\<close> keeps the first 50.
\<close>

definition historyEntry :: "HistoryPayload \<Rightarrow> nat \<Rightarrow> nat \<Rightarrow> SelectionHistoryEntry" where
  "historyEntry payload nowId nowTimestamp =
     \<lparr>h_id = ''selection_'' @ decimal nowId,
      h_timestamp = nowTimestamp,
      h_companyIds = companyIds payload,
      h_stats = stats payload,
      h_mode = mode payload,
      h_geometry = geometry payload\<rparr>"

definition addToSelectionHistory ::
  "HistoryPayload \<Rightarrow> nat \<Rightarrow> nat \<Rightarrow> SelectionState \<Rightarrow> SelectionState" where
  "addToSelectionHistory payload nowId nowTimestamp state =
     (let unshifted = historyEntry payload nowId nowTimestamp # selectionHistory state
      in if length unshifted > 50
         then state\<lparr>selectionHistory := take 50 unshifted\<rparr>
         else state\<lparr>selectionHistory := unshifted\<rparr>)"

definition restoreSelectionFromHistory :: "string \<Rightarrow> SelectionState \<Rightarrow> SelectionState" where
  "restoreSelectionFromHistory historyId state =
     (case find (\<lambda>entry. h_id entry = historyId) (selectionHistory state) of
        None \<Rightarrow> state
      | Some entry \<Rightarrow>
          state\<lparr>selectedCompanies := set (h_companyIds entry),
                selectionStats := Some (h_stats entry)\<rparr>)"

definition removeFromSelectionHistory :: "string \<Rightarrow> SelectionState \<Rightarrow> SelectionState" where
  "removeFromSelectionHistory historyId state =
     state\<lparr>selectionHistory := filter (\<lambda>entry. h_id entry \<noteq> historyId) (selectionHistory state)\<rparr>"

definition clearSelectionHistory :: "SelectionState \<Rightarrow> SelectionState" where
  "clearSelectionHistory state = state\<lparr>selectionHistory := []\<rparr>"

text \<open>The history operations as actions, and the reducer run over a list of them.\<close>

datatype historyAction =
    AddToSelectionHistory HistoryPayload nat nat
  | RestoreSelectionFromHistory string
  | RemoveFromSelectionHistory string
  | ClearSelectionHistory

fun historyReducer :: "historyAction \<Rightarrow> SelectionState \<Rightarrow> SelectionState" where
  "historyReducer (AddToSelectionHistory payload nowId nowTimestamp) state =
     addToSelectionHistory payload nowId nowTimestamp state"
| "historyReducer (RestoreSelectionFromHistory historyId) state =
     restoreSelectionFromHistory historyId state"
| "historyReducer (RemoveFromSelectionHistory historyId) state =
     removeFromSelectionHistory historyId state"
| "historyReducer ClearSelectionHistory state = clearSelectionHistory state"

definition dispatchAll :: "historyAction list \<Rightarrow> SelectionState \<Rightarrow> SelectionState" where
  "dispatchAll actions state = fold historyReducer actions state"

text \<open>The map slice.\<close>

record MapCamera =
  cam_position :: Vector3
  cam_zoom :: real
  cam_target :: Vector3

record Bounds =
  north :: real
  south :: real
  east :: real
  west :: real

record LatLng =
  lat :: real
  lng :: real

record Viewport =
  bounds :: Bounds
  center :: LatLng
  zoomLevel :: real

datatype PerformanceMode = High | Medium | Low

record MapState =
  camera :: MapCamera
  viewport :: Viewport
  selectionMode :: SelectionMode
  selectionGeometry :: "SelectionGeometry option"
  lodLevel :: real
  performanceMode :: PerformanceMode

definition setSelectionMode :: "SelectionMode \<Rightarrow> MapState \<Rightarrow> MapState" where
  "setSelectionMode payload state =
     (let state1 = state\<lparr>selectionMode := payload\<rparr>
      in if payload = ModePan then state1\<lparr>selectionGeometry := None\<rparr> else state1)"

section \<open>Notions used in the statements\<close>



text \<open>A colouring is proper when no coloured state has the colour of a coloured neighbour it lists.\<close>

definition properColoring :: "colorMap \<Rightarrow> bool" where
  "properColoring m =
     (\<forall>a b. b \<in> set (neighborsOf a) \<longrightarrow> m a \<noteq> None \<longrightarrow> m b \<noteq> None \<longrightarrow> m a \<noteq> m b)"

text \<open>The bounds of the camera: there is a camera, and its zoom, or its distance, is in range.\<close>

definition zoomInRange :: "Camera option \<Rightarrow> bool" where
  "zoomInRange cameraRef =
     (case cameraRef of None \<Rightarrow> False
      | Some cam \<Rightarrow> MIN_ZOOM \<le> zoom cam \<and> zoom cam \<le> MAX_ZOOM)"

definition withinPanBound :: "Camera option \<Rightarrow> bool" where
  "withinPanBound cameraRef =
     (case cameraRef of None \<Rightarrow> False
      | Some cam \<Rightarrow> groundDistance cam \<le> MAX_PAN_DISTANCE)"

text \<open>The position a pan asks for, before the bound is applied, and its distance from the origin.\<close>

definition panTarget :: "real \<Rightarrow> real \<Rightarrow> Camera \<Rightarrow> real \<times> real" where
  "panTarget deltaX deltaY cam =
     (v_x (position cam) - deltaX * (2.5 / zoom cam),
      v_z (position cam) - deltaY * (2.5 / zoom cam))"

definition planeNorm :: "real \<times> real \<Rightarrow> real" where
  "planeNorm p = sqrt (fst p * fst p + snd p * snd p)"

text \<open>
  Adding the entries of a list of payloads, each with its two clock readings,
  first to last, and the entry that each of them makes.
\<close>

definition addAll :: "(HistoryPayload \<times> nat \<times> nat) list \<Rightarrow> historyAction list" where
  "addAll ps =
     map (\<lambda>(payload, nowId, nowTimestamp). AddToSelectionHistory payload nowId nowTimestamp) ps"

definition entryOf :: "HistoryPayload \<times> nat \<times> nat \<Rightarrow> SelectionHistoryEntry" where
  "entryOf = (\<lambda>(payload, nowId, nowTimestamp). historyEntry payload nowId nowTimestamp)"

text \<open>A payload and a screen, for the concrete instances.\<close>

definition examplePayload :: HistoryPayload where
  "examplePayload =
     \<lparr>companyIds = [''AAPL''],
      stats = \<lparr>region_description = ''Custom Selection'', company_count = 1,
               avg_price = Some 10, total_volume = Some 100, top_companies = Some []\<rparr>,
      mode = ModeRect,
      geometry = \<lparr>g_type = ModeRect, g_bounds = None, g_center = None, g_radius = None,
                  g_points = None, g_state = None, g_start = None, g_current = None\<rparr>\<rparr>"

definition squareContainer :: Container where
  "squareContainer = \<lparr>clientWidth = 1000, clientHeight = 1000\<rparr>"

text \<open>
  Moving a camera in the ground plane, and the property of an unprojection that
  the world point of a device coordinate moves with the camera.
\<close>

definition translate :: "Camera \<Rightarrow> real \<Rightarrow> real \<Rightarrow> Camera" where
  "translate cam dx dz =
     cam\<lparr>position := (position cam)
        \<lparr>v_x := v_x (position cam) + dx, v_z := v_z (position cam) + dz\<rparr>\<rparr>"

definition movesWithCamera :: "(Camera \<Rightarrow> Vector3 \<Rightarrow> Vector3) \<Rightarrow> bool" where
  "movesWithCamera unproject =
     (\<forall>cam dx dz ndc.
        unproject (translate cam dx dz) ndc =
          add (unproject cam ndc) \<lparr>v_x = dx, v_y = 0, v_z = dz\<rparr>)"


section \<open>Properties of the rounding\<close>

text \<open>
  Within a binade the rounding is the rounding of the significand to an integer;
  this evaluates \<open>roundToDouble\<close> at a given number.
\<close>

lemma roundToDouble_zero: "roundToDouble 0 = 0"
  by (simp add: roundToDouble_def)

lemma floor_log2_binade:
  fixes x :: real
  assumes "2 powr of_int e \<le> x" and "x < 2 powr of_int (e + 1)"
  shows "\<lfloor>log 2 x\<rfloor> = e"
proof -
  have pos: "0 < x" using assms(1) by (smt (verit) powr_gt_zero)
  have "of_int e \<le> log 2 x" using assms(1) pos by (simp add: le_log_iff)
  moreover have "log 2 x < of_int (e + 1)" using assms(2) pos by (simp add: log_less_iff)
  ultimately show ?thesis by (simp add: floor_eq_iff)
qed

lemma roundToDouble_binade:
  assumes "2 powr of_int e \<le> \<bar>x\<bar>" and "\<bar>x\<bar> < 2 powr of_int (e + 1)" and "- 1022 \<le> e"
  shows "roundToDouble x =
     of_int (roundHalfEven (x / 2 powr of_int (e - 52))) * 2 powr of_int (e - 52)"
proof -
  have "x \<noteq> 0" using assms(1) by (smt (verit) powr_gt_zero)
  moreover have "binadeExponent x = e"
    using floor_log2_binade [OF assms(1,2)] assms(3) by (simp add: binadeExponent_def)
  ultimately show ?thesis by (simp add: roundToDouble_def Let_def)
qed



text \<open>The roundings that the instances below make.\<close>

lemma round_1: "roundToDouble 1 = 1"
  using roundToDouble_binade [of 0 1] by (simp add: roundHalfEven_def Let_def powr_minus_divide)













lemma round_3: "roundToDouble 3 = 3"
  using roundToDouble_binade [of 1 3] by (simp add: roundHalfEven_def Let_def powr_minus_divide)

lemma round_4: "roundToDouble 4 = 4"
  using roundToDouble_binade [of 2 4] by (simp add: roundHalfEven_def Let_def powr_minus_divide)

lemma round_9: "roundToDouble 9 = 9"
  using roundToDouble_binade [of 3 9] by (simp add: roundHalfEven_def Let_def powr_minus_divide)

lemma round_16: "roundToDouble 16 = 16"
  using roundToDouble_binade [of 4 16] by (simp add: roundHalfEven_def Let_def powr_minus_divide)

lemma round_25: "roundToDouble 25 = 25"
  using roundToDouble_binade [of 4 25] by (simp add: roundHalfEven_def Let_def powr_minus_divide)




section \<open>Properties of the spatial queries\<close>

text \<open>
  C1. For every point \<open>p\<close>, every rectangle with corners \<open>mn\<close> and \<open>mx\<close> and every
  list of projected points, \<open>selectInRectangle\<close> has \<open>p\<close> in its result exactly
  when \<open>p\<close> is in the list and \<open>mn.x \<le> p.x \<le> mx.x\<close> and \<open>mn.y \<le> p.z \<le> mx.y\<close>, all
  four edges included.
\<close>

theorem selectInRectangle_inclusive:
  "p \<in> set (selectInRectangle mn mx allCoords) \<longleftrightarrow>
     p \<in> set allCoords \<and> p_x mn \<le> c_x p \<and> c_x p \<le> p_x mx \<and> p_y mn \<le> c_z p \<and> c_z p \<le> p_y mx"
  by (auto simp: selectInRectangle_def)

text \<open>A point on the right and lower edges is selected, a point past the right edge is not.\<close>

theorem selectInRectangle_inclusive_witness:
  "\<lparr>ticker = ''A'', c_x = 2, c_y = 0.2, c_z = 5\<rparr>
     \<in> set (selectInRectangle \<lparr>p_x = 0, p_y = 5\<rparr> \<lparr>p_x = 2, p_y = 7\<rparr>
          [\<lparr>ticker = ''B'', c_x = 3, c_y = 0.2, c_z = 5\<rparr>, \<lparr>ticker = ''A'', c_x = 2, c_y = 0.2, c_z = 5\<rparr>])
   \<and> \<lparr>ticker = ''B'', c_x = 3, c_y = 0.2, c_z = 5\<rparr>
     \<notin> set (selectInRectangle \<lparr>p_x = 0, p_y = 5\<rparr> \<lparr>p_x = 2, p_y = 7\<rparr>
          [\<lparr>ticker = ''B'', c_x = 3, c_y = 0.2, c_z = 5\<rparr>, \<lparr>ticker = ''A'', c_x = 2, c_y = 0.2, c_z = 5\<rparr>])"
  using selectInRectangle_inclusive [of "\<lparr>ticker = ''A'', c_x = 2, c_y = 0.2, c_z = 5\<rparr>"
      "\<lparr>p_x = 0, p_y = 5\<rparr>" "\<lparr>p_x = 2, p_y = 7\<rparr>"
      "[\<lparr>ticker = ''B'', c_x = 3, c_y = 0.2, c_z = 5\<rparr>, \<lparr>ticker = ''A'', c_x = 2, c_y = 0.2, c_z = 5\<rparr>]"]
    selectInRectangle_inclusive [of "\<lparr>ticker = ''B'', c_x = 3, c_y = 0.2, c_z = 5\<rparr>"
      "\<lparr>p_x = 0, p_y = 5\<rparr>" "\<lparr>p_x = 2, p_y = 7\<rparr>"
      "[\<lparr>ticker = ''B'', c_x = 3, c_y = 0.2, c_z = 5\<rparr>, \<lparr>ticker = ''A'', c_x = 2, c_y = 0.2, c_z = 5\<rparr>]"]
  by simp





text \<open>
  C3. For every list of fewer than 3 polygon vertices and every list of points,
  \<open>selectInPolygon\<close> returns the empty list; the model has no error branch, as
  the source has no statement that raises.
\<close>

theorem selectInPolygon_degenerate:
  "length polygonPoints < 3 \<Longrightarrow> selectInPolygon polygonPoints allCoords = []"
  by (simp add: selectInPolygon_def)

theorem selectInPolygon_degenerate_witness:
  "length [\<lparr>p_x = 0, p_y = 0\<rparr>, \<lparr>p_x = 10, p_y = 10\<rparr>] < 3
   \<and> selectInPolygon [\<lparr>p_x = 0, p_y = 0\<rparr>, \<lparr>p_x = 10, p_y = 10\<rparr>]
         [\<lparr>ticker = ''A'', c_x = 5, c_y = 0.2, c_z = 5\<rparr>] = []"
  using selectInPolygon_degenerate [of "[\<lparr>p_x = 0, p_y = 0\<rparr>, \<lparr>p_x = 10, p_y = 10\<rparr>]"
      "[\<lparr>ticker = ''A'', c_x = 5, c_y = 0.2, c_z = 5\<rparr>]"]
  by simp

text \<open>
  C8, as the claim states it, fails: with the worker running, a circle of radius -1
  centred on a point selects that point.
\<close>

theorem selectInCircle_negative_radius_counterexample:
  "(- 1 :: real) < 0
   \<and> managerSelectInCircle True \<lparr>p_x = 0, p_y = 0\<rparr> (- 1)
        [\<lparr>ticker = ''A'', c_x = 0, c_y = 0.2, c_z = 0\<rparr>]
       = [\<lparr>ticker = ''A'', c_x = 0, c_y = 0.2, c_z = 0\<rparr>]
   \<and> selectInCircle \<lparr>p_x = 0, p_y = 0\<rparr> (- 1)
        [\<lparr>ticker = ''A'', c_x = 0, c_y = 0.2, c_z = 0\<rparr>] \<noteq> []"
  by (simp add: selectInCircle_def managerSelectInCircle_def numSub_def numMul_def numAdd_def
        roundToDouble_zero round_1)

text \<open>
  C8, amended. For every circle query with a negative radius \<open>r\<close> the radius
  enters the test squared, so the worker's answer is its answer to the query
  with the radius \<open>\<bar>r\<bar>\<close>; the manager returns that answer when the worker runs
  and the empty list when it does not; nothing is raised.
\<close>

theorem selectInCircle_negative_radius:
  "r < 0 \<Longrightarrow>
     selectInCircle c r allCoords = selectInCircle c \<bar>r\<bar> allCoords
     \<and> managerSelectInCircle True c r allCoords = selectInCircle c \<bar>r\<bar> allCoords
     \<and> managerSelectInCircle False c r allCoords = []"
  by (simp add: selectInCircle_def managerSelectInCircle_def numMul_def)

text \<open>The radius -5 selects the point (3, 4), as the radius 5 does.\<close>

theorem selectInCircle_negative_radius_witness:
  "(- 5 :: real) < 0
   \<and> selectInCircle \<lparr>p_x = 0, p_y = 0\<rparr> (- 5) [\<lparr>ticker = ''A'', c_x = 3, c_y = 0.2, c_z = 4\<rparr>]
       = selectInCircle \<lparr>p_x = 0, p_y = 0\<rparr> \<bar>- 5\<bar> [\<lparr>ticker = ''A'', c_x = 3, c_y = 0.2, c_z = 4\<rparr>]
   \<and> selectInCircle \<lparr>p_x = 0, p_y = 0\<rparr> 5 [\<lparr>ticker = ''A'', c_x = 3, c_y = 0.2, c_z = 4\<rparr>]
       = [\<lparr>ticker = ''A'', c_x = 3, c_y = 0.2, c_z = 4\<rparr>]
   \<and> managerSelectInCircle False \<lparr>p_x = 0, p_y = 0\<rparr> (- 5)
        [\<lparr>ticker = ''A'', c_x = 3, c_y = 0.2, c_z = 4\<rparr>] = []"
proof -
  have s: "selectInCircle \<lparr>p_x = 0, p_y = 0\<rparr> 5 [\<lparr>ticker = ''A'', c_x = 3, c_y = 0.2, c_z = 4\<rparr>]
       = [\<lparr>ticker = ''A'', c_x = 3, c_y = 0.2, c_z = 4\<rparr>]"
    by (simp add: selectInCircle_def numSub_def numMul_def numAdd_def
          round_3 round_4 round_9 round_16 round_25)
  from s selectInCircle_negative_radius [of "- 5" "\<lparr>p_x = 0, p_y = 0\<rparr>"
      "[\<lparr>ticker = ''A'', c_x = 3, c_y = 0.2, c_z = 4\<rparr>]"]
  show ?thesis by simp
qed



section \<open>Properties of the store slices\<close>

text \<open>
  C10. For every map state and every mode \<open>m\<close>, \<open>setSelectionMode\<close> sets
  \<open>selectionMode\<close> to \<open>m\<close>; it sets \<open>selectionGeometry\<close> to null when \<open>m\<close> is
  \<open>'pan'\<close> and leaves it as it was otherwise; and \<open>camera\<close>, \<open>viewport\<close>,
  \<open>lodLevel\<close> and \<open>performanceMode\<close> are unchanged.
\<close>

theorem setSelectionMode_frame:
  "selectionMode (setSelectionMode m s) = m
   \<and> (m = ModePan \<longrightarrow> selectionGeometry (setSelectionMode m s) = None)
   \<and> (m \<noteq> ModePan \<longrightarrow> selectionGeometry (setSelectionMode m s) = selectionGeometry s)
   \<and> camera (setSelectionMode m s) = camera s
   \<and> viewport (setSelectionMode m s) = viewport s
   \<and> lodLevel (setSelectionMode m s) = lodLevel s
   \<and> performanceMode (setSelectionMode m s) = performanceMode s"
  by (simp add: setSelectionMode_def Let_def)

text \<open>
  A state that holds a geometry: the mode \<open>'pan'\<close> clears it, the mode \<open>'rect'\<close>
  keeps it.
\<close>

theorem setSelectionMode_frame_witness:
  "selectionGeometry (setSelectionMode ModePan
      \<lparr>camera = \<lparr>cam_position = \<lparr>v_x = 0, v_y = 10, v_z = 0\<rparr>, cam_zoom = 1,
                 cam_target = \<lparr>v_x = 0, v_y = 0, v_z = 0\<rparr>\<rparr>,
       viewport = \<lparr>bounds = \<lparr>north = 49, south = 25, east = - 66, west = - 125\<rparr>,
                   center = \<lparr>lat = 39.5, lng = - 98.35\<rparr>, zoomLevel = 4\<rparr>,
       selectionMode = ModeCircle, selectionGeometry = Some (geometry examplePayload),
       lodLevel = 1, performanceMode = High\<rparr>) = None
   \<and> ModeRect \<noteq> ModePan
   \<and> selectionGeometry (setSelectionMode ModeRect
      \<lparr>camera = \<lparr>cam_position = \<lparr>v_x = 0, v_y = 10, v_z = 0\<rparr>, cam_zoom = 1,
                 cam_target = \<lparr>v_x = 0, v_y = 0, v_z = 0\<rparr>\<rparr>,
       viewport = \<lparr>bounds = \<lparr>north = 49, south = 25, east = - 66, west = - 125\<rparr>,
                   center = \<lparr>lat = 39.5, lng = - 98.35\<rparr>, zoomLevel = 4\<rparr>,
       selectionMode = ModeCircle, selectionGeometry = Some (geometry examplePayload),
       lodLevel = 1, performanceMode = High\<rparr>) = Some (geometry examplePayload)"
  using setSelectionMode_frame [of ModePan
      "\<lparr>camera = \<lparr>cam_position = \<lparr>v_x = 0, v_y = 10, v_z = 0\<rparr>, cam_zoom = 1,
                 cam_target = \<lparr>v_x = 0, v_y = 0, v_z = 0\<rparr>\<rparr>,
       viewport = \<lparr>bounds = \<lparr>north = 49, south = 25, east = - 66, west = - 125\<rparr>,
                   center = \<lparr>lat = 39.5, lng = - 98.35\<rparr>, zoomLevel = 4\<rparr>,
       selectionMode = ModeCircle, selectionGeometry = Some (geometry examplePayload),
       lodLevel = 1, performanceMode = High\<rparr>"]
    setSelectionMode_frame [of ModeRect
      "\<lparr>camera = \<lparr>cam_position = \<lparr>v_x = 0, v_y = 10, v_z = 0\<rparr>, cam_zoom = 1,
                 cam_target = \<lparr>v_x = 0, v_y = 0, v_z = 0\<rparr>\<rparr>,
       viewport = \<lparr>bounds = \<lparr>north = 49, south = 25, east = - 66, west = - 125\<rparr>,
                   center = \<lparr>lat = 39.5, lng = - 98.35\<rparr>, zoomLevel = 4\<rparr>,
       selectionMode = ModeCircle, selectionGeometry = Some (geometry examplePayload),
       lodLevel = 1, performanceMode = High\<rparr>"]
  by simp

text \<open>The selection history: every reducer keeps the bound of 50 entries.\<close>

lemma historyReducer_length:
  assumes "length (selectionHistory state) \<le> 50"
  shows "length (selectionHistory (historyReducer a state)) \<le> 50"
proof (cases a)
  case (AddToSelectionHistory payload nowId nowTimestamp)
  then show ?thesis by (simp add: addToSelectionHistory_def Let_def)
next
  case (RestoreSelectionFromHistory historyId)
  with assms show ?thesis
    by (simp add: restoreSelectionFromHistory_def split: option.split)
next
  case (RemoveFromSelectionHistory historyId)
  have "length (filter (\<lambda>entry. h_id entry \<noteq> historyId) (selectionHistory state))
      \<le> length (selectionHistory state)"
    by (rule length_filter_le)
  with assms have "length (filter (\<lambda>entry. h_id entry \<noteq> historyId) (selectionHistory state)) \<le> 50"
    by (rule order_trans [rotated])
  then show ?thesis using RemoveFromSelectionHistory
    by (simp add: removeFromSelectionHistory_def)
next
  case ClearSelectionHistory
  then show ?thesis by (simp add: clearSelectionHistory_def)
qed

lemma dispatchAll_length:
  "length (selectionHistory state) \<le> 50 \<Longrightarrow>
   length (selectionHistory (dispatchAll actions state)) \<le> 50"
  unfolding dispatchAll_def
proof (induction actions arbitrary: state)
  case Nil
  then show ?case by simp
next
  case (Cons a actions)
  from Cons.prems have "length (selectionHistory (historyReducer a state)) \<le> 50"
    by (rule historyReducer_length)
  then show ?case using Cons.IH by simp
qed

lemma addToSelectionHistory_history:
  "selectionHistory (addToSelectionHistory payload nowId nowTimestamp state) =
     take 50 (historyEntry payload nowId nowTimestamp # selectionHistory state)"
  by (simp add: addToSelectionHistory_def Let_def)


lemma take_append_take: "take n (xs @ take n ys) = take n (xs @ ys)"
  by (simp add: min_def)

lemma fold_addAll:
  "length (selectionHistory state) \<le> 50 \<Longrightarrow>
   selectionHistory (fold historyReducer (addAll ps) state) =
     take 50 (rev (map entryOf ps) @ selectionHistory state)"
proof (induction ps arbitrary: state)
  case Nil
  then show ?case by (simp add: addAll_def)
next
  case (Cons p ps)
  obtain payload nowId nowTimestamp where p: "p = (payload, nowId, nowTimestamp)"
    by (cases p) auto
  let ?state' = "addToSelectionHistory payload nowId nowTimestamp state"
  have len: "length (selectionHistory ?state') \<le> 50"
    by (simp add: addToSelectionHistory_history)
  have "selectionHistory (fold historyReducer (addAll (p # ps)) state) =
      selectionHistory (fold historyReducer (addAll ps) ?state')"
    by (simp add: addAll_def p)
  also have "\<dots> = take 50 (rev (map entryOf ps) @
      take 50 (historyEntry payload nowId nowTimestamp # selectionHistory state))"
    using Cons.IH [OF len] by (simp add: addToSelectionHistory_history)
  also have "\<dots> = take 50 (rev (map entryOf (p # ps)) @ selectionHistory state)"
    unfolding take_append_take by (simp add: p entryOf_def)
  finally show ?case .
qed


lemma dispatchAll_addAll_initial:
  "selectionHistory (dispatchAll (addAll ps) initialSelectionState) = take 50 (rev (map entryOf ps))"
  using fold_addAll [of initialSelectionState ps]
  by (simp add: dispatchAll_def initialSelectionState_def)

lemma take_full_Cons: "length xs = Suc n \<Longrightarrow> take (Suc n) (x # xs) = x # butlast xs"
  by (simp add: butlast_conv_take)

text \<open>
  C6. After every sequence of history operations (add, restore, remove, clear)
  from the initial state the history holds at most 50 entries; an add on a
  history of 50 entries puts the new entry in front and drops exactly the last
  entry, keeping the other 49 in their order; and after a sequence of adds the
  history lists the entries newest first, cut to the 50 newest, so the last
  entry is the oldest by insertion.
\<close>

theorem selectionHistory_capacity:
  "length (selectionHistory (dispatchAll actions initialSelectionState)) \<le> 50
   \<and> (length (selectionHistory state) = 50 \<longrightarrow>
        selectionHistory (addToSelectionHistory payload nowId nowTimestamp state) =
          historyEntry payload nowId nowTimestamp # butlast (selectionHistory state))
   \<and> selectionHistory (dispatchAll (addAll ps) initialSelectionState) =
        take 50 (rev (map entryOf ps))"
proof (intro conjI impI)
  show "length (selectionHistory (dispatchAll actions initialSelectionState)) \<le> 50"
    by (rule dispatchAll_length) (simp add: initialSelectionState_def)
next
  assume "length (selectionHistory state) = 50"
  then show "selectionHistory (addToSelectionHistory payload nowId nowTimestamp state) =
      historyEntry payload nowId nowTimestamp # butlast (selectionHistory state)"
    using take_full_Cons [of "selectionHistory state" 49 "historyEntry payload nowId nowTimestamp"]
    by (simp add: addToSelectionHistory_history)
next
  show "selectionHistory (dispatchAll (addAll ps) initialSelectionState) =
      take 50 (rev (map entryOf ps))"
    by (rule dispatchAll_addAll_initial)
qed

text \<open>
  Fifty adds with the clock readings 1 to 50 fill the history; the add at clock
  51 then drops the entry of clock 1.
\<close>

theorem selectionHistory_capacity_witness:
  "length (selectionHistory (dispatchAll
       (addAll (map (\<lambda>t. (examplePayload, t, t)) [1 ..< 51])) initialSelectionState)) = 50
   \<and> selectionHistory (addToSelectionHistory examplePayload 51 51
        (dispatchAll (addAll (map (\<lambda>t. (examplePayload, t, t)) [1 ..< 51])) initialSelectionState)) =
       historyEntry examplePayload 51 51 #
         butlast (selectionHistory (dispatchAll
           (addAll (map (\<lambda>t. (examplePayload, t, t)) [1 ..< 51])) initialSelectionState))
   \<and> last (selectionHistory (dispatchAll
        (addAll (map (\<lambda>t. (examplePayload, t, t)) [1 ..< 51])) initialSelectionState)) =
       historyEntry examplePayload 1 1"
proof -
  let ?ps = "map (\<lambda>t. (examplePayload, t, t)) [1 ..< 51]"
  let ?state = "dispatchAll (addAll ?ps) initialSelectionState"
  have h: "selectionHistory ?state = rev (map entryOf ?ps)"
    by (simp add: dispatchAll_addAll_initial)
  have len: "length (selectionHistory ?state) = 50"
    unfolding h by simp
  have "[1 ..< 51] = 1 # [2 ..< 51]"
    by (simp add: upt_conv_Cons)
  then have lst: "last (selectionHistory ?state) = historyEntry examplePayload 1 1"
    unfolding h by (simp add: last_rev entryOf_def)
  from selectionHistory_capacity [of "addAll ?ps" ?state examplePayload 51 51 ?ps] len lst
  show ?thesis by simp
qed


section \<open>Properties of the region colouring\<close>

text \<open>The neighbours that the table lists for each of its fifty keys.\<close>

lemma neighborsOf_table:
  "neighborsOf ''Alabama'' = [''Mississippi'', ''Tennessee'', ''Georgia'', ''Florida'']"
  "neighborsOf ''Alaska'' = []"
  "neighborsOf ''Arizona'' = [''California'', ''Nevada'', ''Utah'', ''Colorado'', ''New Mexico'']"
  "neighborsOf ''Arkansas'' = [''Missouri'', ''Tennessee'', ''Mississippi'', ''Louisiana'', ''Texas'', ''Oklahoma'']"
  "neighborsOf ''California'' = [''Oregon'', ''Nevada'', ''Arizona'']"
  "neighborsOf ''Colorado'' = [''Wyoming'', ''Nebraska'', ''Kansas'', ''Oklahoma'', ''New Mexico'', ''Arizona'', ''Utah'']"
  "neighborsOf ''Connecticut'' = [''Massachusetts'', ''Rhode Island'', ''New York'']"
  "neighborsOf ''Delaware'' = [''Maryland'', ''Pennsylvania'', ''New Jersey'']"
  "neighborsOf ''Florida'' = [''Georgia'', ''Alabama'']"
  "neighborsOf ''Georgia'' = [''Florida'', ''Alabama'', ''Tennessee'', ''North Carolina'', ''South Carolina'']"
  "neighborsOf ''Hawaii'' = []"
  "neighborsOf ''Idaho'' = [''Montana'', ''Wyoming'', ''Utah'', ''Nevada'', ''Oregon'', ''Washington'']"
  "neighborsOf ''Illinois'' = [''Wisconsin'', ''Indiana'', ''Kentucky'', ''Missouri'', ''Iowa'']"
  "neighborsOf ''Indiana'' = [''Michigan'', ''Ohio'', ''Kentucky'', ''Illinois'']"
  "neighborsOf ''Iowa'' = [''Minnesota'', ''Wisconsin'', ''Illinois'', ''Missouri'', ''Nebraska'', ''South Dakota'']"
  "neighborsOf ''Kansas'' = [''Nebraska'', ''Missouri'', ''Oklahoma'', ''Colorado'']"
  "neighborsOf ''Kentucky'' = [''Indiana'', ''Ohio'', ''West Virginia'', ''Virginia'', ''Tennessee'', ''Missouri'', ''Illinois'']"
  "neighborsOf ''Louisiana'' = [''Arkansas'', ''Mississippi'', ''Texas'']"
  "neighborsOf ''Maine'' = [''New Hampshire'']"
  "neighborsOf ''Maryland'' = [''Delaware'', ''Pennsylvania'', ''West Virginia'', ''Virginia'']"
  "neighborsOf ''Massachusetts'' = [''Rhode Island'', ''Connecticut'', ''New York'', ''Vermont'', ''New Hampshire'']"
  "neighborsOf ''Michigan'' = [''Ohio'', ''Indiana'', ''Wisconsin'']"
  "neighborsOf ''Minnesota'' = [''Wisconsin'', ''Iowa'', ''South Dakota'', ''North Dakota'']"
  "neighborsOf ''Mississippi'' = [''Louisiana'', ''Arkansas'', ''Tennessee'', ''Alabama'']"
  "neighborsOf ''Missouri'' = [''Iowa'', ''Illinois'', ''Kentucky'', ''Tennessee'', ''Arkansas'', ''Oklahoma'', ''Kansas'', ''Nebraska'']"
  "neighborsOf ''Montana'' = [''North Dakota'', ''South Dakota'', ''Wyoming'', ''Idaho'']"
  "neighborsOf ''Nebraska'' = [''South Dakota'', ''Iowa'', ''Missouri'', ''Kansas'', ''Colorado'', ''Wyoming'']"
  "neighborsOf ''Nevada'' = [''Idaho'', ''Utah'', ''Arizona'', ''California'', ''Oregon'']"
  "neighborsOf ''New Hampshire'' = [''Maine'', ''Massachusetts'', ''Vermont'']"
  "neighborsOf ''New Jersey'' = [''New York'', ''Pennsylvania'', ''Delaware'']"
  "neighborsOf ''New Mexico'' = [''Colorado'', ''Oklahoma'', ''Texas'', ''Arizona'']"
  "neighborsOf ''New York'' = [''Vermont'', ''Massachusetts'', ''Connecticut'', ''New Jersey'', ''Pennsylvania'']"
  "neighborsOf ''North Carolina'' = [''Virginia'', ''Tennessee'', ''Georgia'', ''South Carolina'']"
  "neighborsOf ''North Dakota'' = [''Minnesota'', ''South Dakota'', ''Montana'']"
  "neighborsOf ''Ohio'' = [''Pennsylvania'', ''West Virginia'', ''Kentucky'', ''Indiana'', ''Michigan'']"
  "neighborsOf ''Oklahoma'' = [''Kansas'', ''Missouri'', ''Arkansas'', ''Texas'', ''New Mexico'', ''Colorado'']"
  "neighborsOf ''Oregon'' = [''Washington'', ''Idaho'', ''Nevada'', ''California'']"
  "neighborsOf ''Pennsylvania'' = [''New York'', ''New Jersey'', ''Delaware'', ''Maryland'', ''West Virginia'', ''Ohio'']"
  "neighborsOf ''Rhode Island'' = [''Connecticut'', ''Massachusetts'']"
  "neighborsOf ''South Carolina'' = [''North Carolina'', ''Georgia'']"
  "neighborsOf ''South Dakota'' = [''North Dakota'', ''Minnesota'', ''Iowa'', ''Nebraska'', ''Wyoming'', ''Montana'']"
  "neighborsOf ''Tennessee'' = [''Kentucky'', ''Virginia'', ''North Carolina'', ''Georgia'', ''Alabama'', ''Mississippi'', ''Arkansas'', ''Missouri'']"
  "neighborsOf ''Texas'' = [''New Mexico'', ''Oklahoma'', ''Arkansas'', ''Louisiana'']"
  "neighborsOf ''Utah'' = [''Idaho'', ''Wyoming'', ''Colorado'', ''Arizona'', ''Nevada'']"
  "neighborsOf ''Vermont'' = [''New York'', ''New Hampshire'', ''Massachusetts'']"
  "neighborsOf ''Virginia'' = [''Maryland'', ''West Virginia'', ''Kentucky'', ''Tennessee'', ''North Carolina'']"
  "neighborsOf ''Washington'' = [''Idaho'', ''Oregon'']"
  "neighborsOf ''West Virginia'' = [''Pennsylvania'', ''Maryland'', ''Virginia'', ''Kentucky'', ''Ohio'']"
  "neighborsOf ''Wisconsin'' = [''Michigan'', ''Minnesota'', ''Iowa'', ''Illinois'']"
  "neighborsOf ''Wyoming'' = [''Montana'', ''South Dakota'', ''Nebraska'', ''Colorado'', ''Utah'', ''Idaho'']"
  by (simp_all add: neighborsOf_def adjacencyOf_def stateAdjacency_def)

lemma stateAdjacency_symmetric_table:
  "list_all (\<lambda>(a, ns). list_all (\<lambda>b. a \<in> set (neighborsOf b)) ns) stateAdjacency"
  by (simp add: stateAdjacency_def neighborsOf_table)

lemma stateAdjacency_irreflexive_table:
  "list_all (\<lambda>(a, ns). a \<notin> set ns) stateAdjacency"
  by (simp add: stateAdjacency_def)

lemma stateAdjacency_degree_table:
  "list_all (\<lambda>(a, ns). length ns \<le> 8) stateAdjacency"
  by (simp add: stateAdjacency_def)

lemma neighborsOf_cases:
  "neighborsOf a = [] \<or> (a, neighborsOf a) \<in> set stateAdjacency"
  by (auto simp: neighborsOf_def adjacencyOf_def split: option.split dest: map_of_SomeD)

lemma neighborsOf_symmetric:
  assumes "b \<in> set (neighborsOf a)"
  shows "a \<in> set (neighborsOf b)"
proof -
  from assms neighborsOf_cases [of a] have "(a, neighborsOf a) \<in> set stateAdjacency"
    by auto
  with stateAdjacency_symmetric_table assms show ?thesis
    by (auto simp: list_all_iff)
qed

lemma neighborsOf_irreflexive: "a \<notin> set (neighborsOf a)"
proof (cases "neighborsOf a = []")
  case True
  then show ?thesis by simp
next
  case False
  with neighborsOf_cases [of a] have "(a, neighborsOf a) \<in> set stateAdjacency"
    by auto
  with stateAdjacency_irreflexive_table show ?thesis
    by (auto simp: list_all_iff)
qed

lemma neighborsOf_degree: "length (neighborsOf a) \<le> 8"
proof (cases "neighborsOf a = []")
  case True
  then show ?thesis by simp
next
  case False
  with neighborsOf_cases [of a] have "(a, neighborsOf a) \<in> set stateAdjacency"
    by auto
  with stateAdjacency_degree_table show ?thesis
    by (auto simp: list_all_iff)
qed

lemma neighborsOf_below_palette: "length (neighborsOf a) < length stateColorPalette"
  using neighborsOf_degree [of a] by (simp add: stateColorPalette_def)


text \<open>No name inherited from \<open>Object.prototype\<close> is a key of the table.\<close>

lemma adjacencyOf_inherited:
  "adjacencyOf ''constructor'' = None"
  "adjacencyOf ''__defineGetter__'' = None"
  "adjacencyOf ''__defineSetter__'' = None"
  "adjacencyOf ''hasOwnProperty'' = None"
  "adjacencyOf ''__lookupGetter__'' = None"
  "adjacencyOf ''__lookupSetter__'' = None"
  "adjacencyOf ''isPrototypeOf'' = None"
  "adjacencyOf ''propertyIsEnumerable'' = None"
  "adjacencyOf ''toString'' = None"
  "adjacencyOf ''valueOf'' = None"
  "adjacencyOf ''__proto__'' = None"
  "adjacencyOf ''toLocaleString'' = None"
  by (simp_all add: adjacencyOf_def stateAdjacency_def)

lemma objectPrototype_not_listed:
  "list_all (\<lambda>(name, l). adjacencyOf name = None) objectPrototype"
  by (simp add: objectPrototype_def adjacencyOf_inherited)


lemma inheritedName_not_listed:
  assumes "inheritedName s"
  shows "adjacencyOf s = None"
proof -
  from assms obtain l where "map_of objectPrototype s = Some l"
    by (auto simp: inheritedName_def)
  then have "(s, l) \<in> set objectPrototype" by (rule map_of_SomeD)
  with objectPrototype_not_listed show ?thesis by (auto simp: list_all_iff)
qed

text \<open>The greedy step: the colour it picks is free among the coloured neighbours.\<close>

lemma fold_usedColors:
  "fold (\<lambda>neighbor used. case m neighbor of None \<Rightarrow> used | Some c \<Rightarrow> insert c used) ns S
     = S \<union> {c. \<exists>n \<in> set ns. m n = Some c}"
proof (induction ns arbitrary: S)
  case Nil
  then show ?case by simp
next
  case (Cons n ns)
  show ?case
  proof (cases "m n")
    case None
    then show ?thesis by (simp add: Cons.IH)
  next
    case (Some c)
    then show ?thesis by (auto simp: Cons.IH)
  qed
qed

lemma usedColors_eq: "usedColors m ns = {c. \<exists>n \<in> set ns. m n = Some c}"
  by (simp add: usedColors_def fold_usedColors)

lemma usedColors_image: "usedColors m ns \<subseteq> the ` m ` set ns"
  by (force simp: usedColors_eq)

lemma usedColors_finite: "finite (usedColors m ns)"
  by (rule finite_subset [OF usedColors_image]) simp

lemma usedColors_card: "card (usedColors m ns) \<le> length ns"
proof -
  have "card (usedColors m ns) \<le> card (the ` m ` set ns)"
    by (rule card_mono [OF _ usedColors_image]) simp
  also have "\<dots> \<le> card (m ` set ns)" by (rule card_image_le) simp
  also have "\<dots> \<le> card (set ns)" by (rule card_image_le) simp
  also have "\<dots> \<le> length ns" by (rule card_length)
  finally show ?thesis .
qed

lemma free_color_exists:
  assumes "finite used" and "card used < n"
  shows "\<exists>j < n. j \<notin> used"
proof (rule ccontr)
  assume "\<not> (\<exists>j < n. j \<notin> used)"
  then have "{0 ..< n} \<subseteq> used" by auto
  from card_mono [OF assms(1) this] assms(2) show False by simp
qed

lemma firstAvailable_free:
  "\<exists>j. i \<le> j \<and> j < length stateColorPalette \<and> j \<notin> used \<Longrightarrow>
   firstAvailable used i \<notin> used \<and> firstAvailable used i < length stateColorPalette"
proof (induction used i rule: firstAvailable.induct)
  case (1 used colorIndex)
  show ?case
  proof (cases "colorIndex \<in> used \<and> colorIndex < length stateColorPalette")
    case True
    from "1.prems" obtain j where j: "colorIndex \<le> j" "j < length stateColorPalette" "j \<notin> used"
      by blast
    with True have "colorIndex \<noteq> j" by blast
    with j have "\<exists>j. colorIndex + 1 \<le> j \<and> j < length stateColorPalette \<and> j \<notin> used"
      by (intro exI [of _ j]) simp
    from "1.IH" [OF True this] True show ?thesis
      by (subst (1 2) firstAvailable.simps) simp
  next
    case False
    from "1.prems" obtain j where j: "colorIndex \<le> j" "j < length stateColorPalette" "j \<notin> used"
      by blast
    have "firstAvailable used colorIndex = colorIndex"
      using False by (subst firstAvailable.simps) auto
    moreover have "colorIndex \<notin> used \<and> colorIndex < length stateColorPalette"
      using False j by auto
    ultimately show ?thesis by simp
  qed
qed


lemma colorState_color:
  assumes deg: "length ns < length stateColorPalette"
  shows "\<exists>c. colorState ns s m = m(s \<mapsto> c) \<and> c < length stateColorPalette
            \<and> c \<notin> usedColors m ns"
proof -
  let ?used = "usedColors m ns"
  have "card ?used < length stateColorPalette"
    using usedColors_card [of m ns] deg by simp
  from free_color_exists [OF usedColors_finite this]
  have "\<exists>j. 0 \<le> j \<and> j < length stateColorPalette \<and> j \<notin> ?used" by blast
  from firstAvailable_free [OF this]
  have f: "firstAvailable ?used 0 \<notin> ?used" "firstAvailable ?used 0 < length stateColorPalette"
    by simp_all
  then have "colorState ns s m = m(s \<mapsto> firstAvailable ?used 0)"
    by (simp add: colorState_def Let_def)
  with f show ?thesis by blast
qed

lemma colorState_proper:
  assumes pc: "properColoring m"
  shows "properColoring (colorState (neighborsOf s) s m)"
proof -
  from colorState_color [OF neighborsOf_below_palette] obtain c where
    step: "colorState (neighborsOf s) s m = m(s \<mapsto> c)"
    and free: "c \<notin> usedColors m (neighborsOf s)"
    by blast
  have nb: "m n \<noteq> Some c" if "n \<in> set (neighborsOf s)" for n
    using free that by (auto simp: usedColors_eq)
  show ?thesis
    unfolding properColoring_def step
  proof (intro allI impI)
    fix a b
    assume ab: "b \<in> set (neighborsOf a)"
      and "(m(s \<mapsto> c)) a \<noteq> None" and "(m(s \<mapsto> c)) b \<noteq> None"
    have ne: "a \<noteq> b" using ab neighborsOf_irreflexive by auto
    show "(m(s \<mapsto> c)) a \<noteq> (m(s \<mapsto> c)) b"
    proof (cases "a = s")
      case True
      with ne ab nb [of b] show ?thesis by auto
    next
      case False
      show ?thesis
      proof (cases "b = s")
        case True
        with ab neighborsOf_symmetric have "a \<in> set (neighborsOf s)" by blast
        with nb [of a] True False show ?thesis by auto
      next
        case bs: False
        with False pc ab \<open>(m(s \<mapsto> c)) a \<noteq> None\<close> \<open>(m(s \<mapsto> c)) b \<noteq> None\<close>
        show ?thesis by (simp add: properColoring_def)
      qed
    qed
  qed
qed

lemma colorState_dom: "dom (colorState ns s m) = insert s (dom m)"
  by (simp add: colorState_def Let_def)

text \<open>The callback throws under an inherited name and colours the state under any other.\<close>

lemma assignStep_inherited: "inheritedName s \<Longrightarrow> assignStep s m = Inl TypeError"
  using inheritedName_not_listed [of s]
  by (auto simp: assignStep_def stateAdjacencyAt_def inheritedName_def split: option.splits)

lemma assignStep_regular:
  "\<not> inheritedName s \<Longrightarrow> assignStep s m = Inr (colorState (neighborsOf s) s m)"
  by (auto simp: assignStep_def stateAdjacencyAt_def inheritedName_def neighborsOf_def
        split: option.splits)

lemma assignAll_proper:
  "properColoring m \<Longrightarrow> properColoring (snd (assignAll ss m))"
proof (induction ss arbitrary: m)
  case Nil
  then show ?case by simp
next
  case (Cons s ss)
  show ?case
  proof (cases "inheritedName s")
    case True
    with Cons.prems show ?thesis by (simp add: assignStep_inherited)
  next
    case False
    from Cons.IH [OF colorState_proper [OF Cons.prems]] False show ?thesis
      by (simp add: assignStep_regular)
  qed
qed

lemma assignAll_error:
  "fst (assignAll ss m) = (if \<exists>s \<in> set ss. inheritedName s then Some TypeError else None)"
proof (induction ss arbitrary: m)
  case Nil
  then show ?case by simp
next
  case (Cons s ss)
  show ?case
  proof (cases "inheritedName s")
    case True
    then show ?thesis by (simp add: assignStep_inherited)
  next
    case False
    with Cons.IH show ?thesis by (simp add: assignStep_regular)
  qed
qed

lemma assignAll_dom:
  "\<forall>s \<in> set ss. \<not> inheritedName s \<Longrightarrow> dom (snd (assignAll ss m)) = dom m \<union> set ss"
proof (induction ss arbitrary: m)
  case Nil
  then show ?case by simp
next
  case (Cons s ss)
  then show ?case by (auto simp: assignStep_regular colorState_dom)
qed

lemma set_sortedStates: "set (sortedStates states) = set states"
  by (simp add: sortedStates_def)

lemma assignStateColors_properColoring: "properColoring (assignStateColors states)"
  unfolding assignStateColors_def
  by (rule assignAll_proper) (simp add: properColoring_def)

text \<open>
  An instance of the error path: ``constructor'' is read from the prototype,
  with one declared parameter, so it is sorted after New Hampshire and before
  Maine; New Hampshire is coloured, the callback throws at ``constructor'', and
  Maine is never coloured.
\<close>

lemma firstAvailable_empty: "firstAvailable {} 0 = 0"
  by (subst firstAvailable.simps) simp

lemma inheritedName_constructor: "inheritedName ''constructor''"
  by (simp add: inheritedName_def objectPrototype_def)

lemma not_inherited_example:
  "\<not> inheritedName ''Maine''" "\<not> inheritedName ''New Hampshire''" "\<not> inheritedName ''Atlantis''"
  by (simp_all add: inheritedName_def objectPrototype_def)

lemma stateAdjacencyAt_example:
  "stateAdjacencyAt ''constructor'' = Inherited 1"
  "stateAdjacencyAt ''Maine'' = Neighbors [''New Hampshire'']"
  "stateAdjacencyAt ''New Hampshire'' = Neighbors [''Maine'', ''Massachusetts'', ''Vermont'']"
  by (simp_all add: stateAdjacencyAt_def adjacencyOf_def stateAdjacency_def objectPrototype_def)

lemma sortedStates_example:
  "sortedStates [''constructor'', ''Maine'', ''New Hampshire''] =
     [''New Hampshire'', ''constructor'', ''Maine'']"
  by (simp add: sortedStates_def neighborCount_def stateAdjacencyAt_example)

lemma assignStateColors_throws_example:
  "assignStateColorsError [''constructor'', ''Maine'', ''New Hampshire''] = Some TypeError"
  "assignStateColors [''constructor'', ''Maine'', ''New Hampshire''] ''New Hampshire'' = Some 0"
  "assignStateColors [''constructor'', ''Maine'', ''New Hampshire''] ''Maine'' = None"
  by (simp_all add: assignStateColorsError_def assignStateColors_def sortedStates_example
        assignStep_def stateAdjacencyAt_example colorState_def usedColors_def firstAvailable_empty)


text \<open>
  C7. The palette has 10 colours and no state lists more than 8 neighbours, so
  the palette size is at least the largest degree plus 1. For every input list of
  region names, two regions of the list of which one is listed as a neighbour of
  the other never hold the same colour index in \<open>stateColorMap\<close> after the
  call. When no name of the list is a property inherited from
  \<open>Object.prototype\<close>, the call returns and every region of the list has
  received a colour index; when some name of the list is inherited, the call
  throws a TypeError and the regions sorted after that name are left without a
  colour.
\<close>

theorem assignStateColors_no_adjacent_collision:
  "length stateColorPalette = 10
   \<and> length (neighborsOf c) + 1 \<le> length stateColorPalette
   \<and> (a \<in> set states \<longrightarrow> b \<in> set states \<longrightarrow> b \<in> set (neighborsOf a) \<longrightarrow>
        assignStateColors states a \<noteq> None \<longrightarrow> assignStateColors states b \<noteq> None \<longrightarrow>
        assignStateColors states a \<noteq> assignStateColors states b)
   \<and> ((\<forall>s \<in> set states. \<not> inheritedName s) \<longrightarrow>
        assignStateColorsError states = None
        \<and> (a \<in> set states \<longrightarrow> assignStateColors states a \<noteq> None))
   \<and> ((\<exists>s \<in> set states. inheritedName s) \<longrightarrow>
        assignStateColorsError states = Some TypeError)"
proof (intro conjI impI)
  show "length stateColorPalette = 10" by (simp add: stateColorPalette_def)
  show "length (neighborsOf c) + 1 \<le> length stateColorPalette"
    using neighborsOf_below_palette [of c] by simp
next
  assume "b \<in> set (neighborsOf a)"
    and "assignStateColors states a \<noteq> None" and "assignStateColors states b \<noteq> None"
  with assignStateColors_properColoring [of states]
  show "assignStateColors states a \<noteq> assignStateColors states b"
    by (simp add: properColoring_def)
next
  assume "\<forall>s \<in> set states. \<not> inheritedName s"
  then show "assignStateColorsError states = None"
    by (simp add: assignStateColorsError_def assignAll_error set_sortedStates)
next
  assume r: "\<forall>s \<in> set states. \<not> inheritedName s" and a: "a \<in> set states"
  from r have "dom (assignStateColors states) = set states"
    unfolding assignStateColors_def
    by (subst assignAll_dom) (simp_all add: set_sortedStates)
  with a show "assignStateColors states a \<noteq> None" by blast
next
  assume "\<exists>s \<in> set states. inheritedName s"
  then show "assignStateColorsError states = Some TypeError"
    by (simp add: assignStateColorsError_def assignAll_error set_sortedStates)
qed


text \<open>
  Maine and New Hampshire, with Maine given twice and a name that the table
  lacks; and the list with ``constructor''.
\<close>

theorem assignStateColors_no_adjacent_collision_witness:
  "''Maine'' \<in> set [''Maine'', ''Atlantis'', ''New Hampshire'', ''Maine'']
   \<and> ''New Hampshire'' \<in> set [''Maine'', ''Atlantis'', ''New Hampshire'', ''Maine'']
   \<and> ''New Hampshire'' \<in> set (neighborsOf ''Maine'')
   \<and> \<not> inheritedName ''Maine'' \<and> \<not> inheritedName ''Atlantis''
   \<and> \<not> inheritedName ''New Hampshire''
   \<and> assignStateColorsError [''Maine'', ''Atlantis'', ''New Hampshire'', ''Maine''] = None
   \<and> assignStateColors [''Maine'', ''Atlantis'', ''New Hampshire'', ''Maine''] ''Maine'' \<noteq> None
   \<and> assignStateColors [''Maine'', ''Atlantis'', ''New Hampshire'', ''Maine''] ''New Hampshire'' \<noteq> None
   \<and> assignStateColors [''Maine'', ''Atlantis'', ''New Hampshire'', ''Maine''] ''Maine''
       \<noteq> assignStateColors [''Maine'', ''Atlantis'', ''New Hampshire'', ''Maine''] ''New Hampshire''
   \<and> inheritedName ''constructor''
   \<and> ''constructor'' \<in> set [''constructor'', ''Maine'', ''New Hampshire'']
   \<and> assignStateColorsError [''constructor'', ''Maine'', ''New Hampshire''] = Some TypeError"
  using assignStateColors_no_adjacent_collision
      [of "''Maine''" "''Maine''" "[''Maine'', ''Atlantis'', ''New Hampshire'', ''Maine'']" "''New Hampshire''"]
    assignStateColors_no_adjacent_collision
      [of "''Maine''" "''New Hampshire''" "[''Maine'', ''Atlantis'', ''New Hampshire'', ''Maine'']" "''Maine''"]
    assignStateColors_no_adjacent_collision
      [of "''Maine''" "''Maine''" "[''constructor'', ''Maine'', ''New Hampshire'']" "''New Hampshire''"]
  by (simp add: neighborsOf_table not_inherited_example inheritedName_constructor)


section \<open>Properties of the camera handlers\<close>

text \<open>
  The zoom: a pan leaves it, a zoom clamps it, so from the default camera it is
  within \<open>MIN_ZOOM\<close> and \<open>MAX_ZOOM\<close> after every sequence of pans and zooms.
\<close>

lemma clamp_range: "lo \<le> hi \<Longrightarrow> lo \<le> clamp v lo hi \<and> clamp v lo hi \<le> hi"
  by (simp add: clamp_def)

lemma handlePan_zoom:
  "handlePan deltaX deltaY (Some cam) = Some cam' \<Longrightarrow> zoom cam' = zoom cam"
  by (auto simp: handlePan_def Let_def split: if_splits)

lemma handlePan_Some: "\<exists>cam'. handlePan deltaX deltaY (Some cam) = Some cam'"
  by (simp add: handlePan_def Let_def)

lemma handleZoom_Some:
  "\<exists>cam'. handleZoom unproject containerRef delta mouseX mouseY (Some cam) = Some cam'"
  by (simp add: handleZoom_def Let_def split: option.split)

lemma handleZoom_zoom:
  assumes "handleZoom unproject containerRef delta mouseX mouseY (Some cam) = Some cam'"
  shows "zoom cam' = (case containerRef of None \<Rightarrow> zoom cam
           | Some container \<Rightarrow> clamp (zoom cam + delta * zoom cam * 0.5) MIN_ZOOM MAX_ZOOM)"
  using assms
  by (auto simp: handleZoom_def Let_def split: option.splits)

lemma handleEvent_zoomInRange:
  assumes "zoomInRange cameraRef"
  shows "zoomInRange (handleEvent unproject containerRef e cameraRef)"
proof -
  from assms obtain cam where c: "cameraRef = Some cam"
    and r: "MIN_ZOOM \<le> zoom cam" "zoom cam \<le> MAX_ZOOM"
    by (auto simp: zoomInRange_def split: option.splits)
  show ?thesis
  proof (cases e)
    case (PanEvent deltaX deltaY)
    obtain cam' where p: "handlePan deltaX deltaY (Some cam) = Some cam'"
      using handlePan_Some by blast
    with handlePan_zoom [OF p] r show ?thesis
      by (simp add: PanEvent c zoomInRange_def)
  next
    case (ZoomEvent delta mouseX mouseY)
    obtain cam' where z:
      "handleZoom unproject containerRef delta mouseX mouseY (Some cam) = Some cam'"
      using handleZoom_Some by blast
    have "MIN_ZOOM \<le> MAX_ZOOM" by (simp add: MIN_ZOOM_def MAX_ZOOM_def)
    from clamp_range [OF this] handleZoom_zoom [OF z] r
    have "MIN_ZOOM \<le> zoom cam' \<and> zoom cam' \<le> MAX_ZOOM"
      by (cases containerRef) simp_all
    with z show ?thesis
      by (simp add: ZoomEvent c zoomInRange_def)
  qed
qed

lemma handleEvents_zoomInRange:
  "zoomInRange cameraRef \<Longrightarrow> zoomInRange (handleEvents unproject containerRef events cameraRef)"
  unfolding handleEvents_def
  by (induction events arbitrary: cameraRef) (simp_all add: handleEvent_zoomInRange)

lemma zoomInRange_default: "zoomInRange (Some defaultCamera)"
  by (simp add: zoomInRange_def defaultCamera_def MIN_ZOOM_def MAX_ZOOM_def)

text \<open>A pan whose target is within the bound moves the camera to the target.\<close>

lemma handlePan_inside:
  assumes "planeNorm (panTarget deltaX deltaY cam) \<le> MAX_PAN_DISTANCE"
  shows "handlePan deltaX deltaY (Some cam) =
     Some (cam\<lparr>position := (position cam)
        \<lparr>v_x := fst (panTarget deltaX deltaY cam), v_z := snd (panTarget deltaX deltaY cam)\<rparr>\<rparr>)"
  using assms by (simp add: handlePan_def Let_def panTarget_def planeNorm_def)

lemma planeNorm_axis: "planeNorm (a, 0) = \<bar>a\<bar>"
  by (simp add: planeNorm_def)

lemma groundDistance_axis:
  "v_z (position cam) = 0 \<Longrightarrow> groundDistance cam = \<bar>v_x (position cam)\<bar>"
  by (simp add: groundDistance_def)

text \<open>
  With the orthographic camera above the ground the ray construction of
  \<open>unprojectScreenCoords\<close> has a closed form: the length of the direction
  cancels.
\<close>

lemma sum_squares_pos:
  fixes a b k :: real
  assumes "k \<noteq> 0"
  shows "0 < a * a + k * k + b * b"
proof -
  have "0 \<le> a * a" "0 \<le> b * b" by simp_all
  moreover have "0 < k * k" using assms by (simp flip: power2_eq_square)
  ultimately show ?thesis by linarith
qed

lemma scaled_ratio:
  fixes a b l q :: real
  assumes "0 < l" and "b \<noteq> 0"
  shows "a * (1 / l) * (q / (b * (1 / l))) = a * (q / b)"
  using assms by (simp add: field_simps)

lemma ray_to_ground:
  assumes "v_y d \<noteq> 0"
  shows "add p (multiplyScalar (normalize d) (- v_y p / v_y (normalize d))) =
     \<lparr>v_x = v_x p + v_x d * (- v_y p / v_y d),
      v_y = 0,
      v_z = v_z p + v_z d * (- v_y p / v_y d)\<rparr>"
proof -
  let ?l = "vlength d"
  have "0 < v_x d * v_x d + v_y d * v_y d + v_z d * v_z d"
    by (rule sum_squares_pos) (rule assms)
  then have l: "0 < ?l" by (simp add: vlength_def)
  then have n: "normalize d = \<lparr>v_x = v_x d * (1 / ?l), v_y = v_y d * (1 / ?l), v_z = v_z d * (1 / ?l)\<rparr>"
    by (simp add: normalize_def Let_def multiplyScalar_def)
  have y: "v_y p + v_y d * (1 / ?l) * (- v_y p / (v_y d * (1 / ?l))) = 0"
    unfolding scaled_ratio [OF l assms] using assms by simp
  show ?thesis
    unfolding n add_def multiplyScalar_def Vector3.simps scaled_ratio [OF l assms]
    using assms by simp
qed

lemma unprojectScreenCoords_orthographic:
  "unprojectScreenCoords (orthographicUnproject aspect) (Some cam) (Some container) screenX screenY =
     Some \<lparr>v_x = v_x (position cam)
                + ((screenX / clientWidth container) * 2 - 1) * (1000 * aspect / 2) / zoom cam
                  * (- v_y (position cam) / (- 750.025)),
           v_y = 0,
           v_z = v_z (position cam)
                + - ((- (screenY / clientHeight container) * 2 + 1) * (1000 / 2) / zoom cam)
                  * (- v_y (position cam) / (- 750.025))\<rparr>"
proof -
  let ?nx = "(screenX / clientWidth container) * 2 - 1"
  let ?ny = "- (screenY / clientHeight container) * 2 + 1"
  let ?vx = "?nx * (1000 * aspect / 2) / zoom cam"
  let ?vy = "?ny * (1000 / 2) / zoom cam"
  let ?d = "\<lparr>v_x = ?vx, v_y = - 750.025, v_z = - ?vy\<rparr>"
  have d: "sub (orthographicUnproject aspect cam \<lparr>v_x = ?nx, v_y = ?ny, v_z = 0.5\<rparr>) (position cam) = ?d"
    by (cases "zoom cam = 0") (simp_all add: sub_def orthographicUnproject_def Let_def field_simps)
  have "v_y ?d \<noteq> 0" by simp
  from ray_to_ground [OF this, of "position cam"] show ?thesis
    unfolding unprojectScreenCoords_def option.case Let_def d Vector3.simps by simp
qed


lemma panTarget_default: "panTarget deltaX deltaY defaultCamera = (- (deltaX * 2.5), - (deltaY * 2.5))"
  by (simp add: panTarget_def defaultCamera_def)

lemma handlePan_default_800:
  "handlePan (- 800) 0 (Some defaultCamera) =
     Some \<lparr>position = \<lparr>v_x = 2000, v_y = 50, v_z = 0\<rparr>, zoom = 1\<rparr>"
proof -
  have "planeNorm (panTarget (- 800) 0 defaultCamera) \<le> MAX_PAN_DISTANCE"
    by (simp add: panTarget_default planeNorm_axis MAX_PAN_DISTANCE_def)
  then have "handlePan (- 800) 0 (Some defaultCamera) =
     Some (defaultCamera\<lparr>position := (position defaultCamera)
        \<lparr>v_x := fst (panTarget (- 800) 0 defaultCamera),
         v_z := snd (panTarget (- 800) 0 defaultCamera)\<rparr>\<rparr>)"
    by (rule handlePan_inside)
  then show ?thesis
    unfolding panTarget_default by (simp add: defaultCamera_def)
qed

lemma handleZoom_out_at_edge:
  "handleZoom (orthographicUnproject 1) (Some squareContainer) (- 0.2) 1000 500
      (Some \<lparr>position = \<lparr>v_x = 2000, v_y = 50, v_z = 0\<rparr>, zoom = 1\<rparr>) =
     Some \<lparr>position = \<lparr>v_x = 2000 + 1000000 / 270009, v_y = 50, v_z = 0\<rparr>, zoom = 0.9\<rparr>"
  by (simp add: handleZoom_def unprojectScreenCoords_orthographic Let_def clamp_def
        MIN_ZOOM_def MAX_ZOOM_def squareContainer_def)

text \<open>
  C4. The distance of the camera from the origin in the ground plane is not to
  exceed \<open>MAX_PAN_DISTANCE\<close> after any sequence of pans and zooms. \<open>handlePan\<close>
  applies the bound; \<open>handleZoom\<close> translates the position and applies none.
  From the default camera, on a screen of 1000 by 1000 pixels, a pan by -800
  pixels puts the camera at distance 2000 from the origin; zooming out there
  with the pointer at the middle of the right edge moves the camera to distance
  2000 + 1000000 / 270009.
\<close>

theorem handleZoom_leaves_pan_bound:
  "handleEvents (orthographicUnproject 1) (Some squareContainer)
      [PanEvent (- 800) 0, ZoomEvent (- 0.2) 1000 500] (Some defaultCamera) =
     Some \<lparr>position = \<lparr>v_x = 2000 + 1000000 / 270009, v_y = 50, v_z = 0\<rparr>, zoom = 0.9\<rparr>
   \<and> \<not> withinPanBound (handleEvents (orthographicUnproject 1) (Some squareContainer)
      [PanEvent (- 800) 0, ZoomEvent (- 0.2) 1000 500] (Some defaultCamera))"
proof -
  have "handleEvents (orthographicUnproject 1) (Some squareContainer)
      [PanEvent (- 800) 0, ZoomEvent (- 0.2) 1000 500] (Some defaultCamera) =
    handleZoom (orthographicUnproject 1) (Some squareContainer) (- 0.2) 1000 500
      (handlePan (- 800) 0 (Some defaultCamera))"
    by (simp only: handleEvents_def fold_simps handleEvent.simps comp_apply id_apply)
  then have e: "handleEvents (orthographicUnproject 1) (Some squareContainer)
      [PanEvent (- 800) 0, ZoomEvent (- 0.2) 1000 500] (Some defaultCamera) =
     Some \<lparr>position = \<lparr>v_x = 2000 + 1000000 / 270009, v_y = 50, v_z = 0\<rparr>, zoom = 0.9\<rparr>"
    unfolding handlePan_default_800 handleZoom_out_at_edge .
  show ?thesis
    unfolding e by (simp add: withinPanBound_def groundDistance_axis MAX_PAN_DISTANCE_def)
qed

text \<open>
  What \<open>handleZoom\<close> does to the anchor, for every unprojection that moves with
  the camera: the handler translates the zoomed camera by \<open>after - before\<close>, so
  the anchor then unprojects to \<open>after + (after - before)\<close>, which is \<open>before\<close>
  only when the zoom did not move the anchor at all.
\<close>

lemma movesWithCamera_orthographic: "movesWithCamera (orthographicUnproject aspect)"
  by (simp add: movesWithCamera_def orthographicUnproject_def translate_def add_def Let_def)

lemma unprojectScreenCoords_translate:
  assumes "movesWithCamera unproject"
    and "unprojectScreenCoords unproject (Some cam) (Some container) screenX screenY = Some w"
  shows "unprojectScreenCoords unproject (Some (translate cam dx dz)) (Some container) screenX screenY =
     Some \<lparr>v_x = v_x w + dx, v_y = v_y w, v_z = v_z w + dz\<rparr>"
proof -
  let ?ndc = "\<lparr>v_x = (screenX / clientWidth container) * 2 - 1,
               v_y = - (screenY / clientHeight container) * 2 + 1,
               v_z = 0.5\<rparr>"
  from assms(1) have u: "unproject (translate cam dx dz) ?ndc =
      add (unproject cam ?ndc) \<lparr>v_x = dx, v_y = 0, v_z = dz\<rparr>"
    by (simp add: movesWithCamera_def)
  have s: "sub (unproject (translate cam dx dz) ?ndc) (position (translate cam dx dz)) =
      sub (unproject cam ?ndc) (position cam)"
    unfolding u by (simp add: sub_def add_def translate_def)
  have y: "v_y (position (translate cam dx dz)) = v_y (position cam)"
    by (simp add: translate_def)
  from assms(2) have w: "w = add (position cam)
      (multiplyScalar (normalize (sub (unproject cam ?ndc) (position cam)))
         (- v_y (position cam) / v_y (normalize (sub (unproject cam ?ndc) (position cam)))))"
    by (simp add: unprojectScreenCoords_def Let_def)
  show ?thesis
    unfolding unprojectScreenCoords_def option.case Let_def s y
    by (simp add: w add_def translate_def)
qed

lemma translate_zoom: "translate (cam\<lparr>zoom := z\<rparr>) dx dz = (translate cam dx dz)\<lparr>zoom := z\<rparr>"
  by (simp add: translate_def)

lemma handleZoom_translate:
  assumes "unprojectScreenCoords unproject (Some cam) (Some container) mouseX mouseY = Some before"
    and "unprojectScreenCoords unproject
           (Some (cam\<lparr>zoom := clamp (zoom cam + delta * zoom cam * 0.5) MIN_ZOOM MAX_ZOOM\<rparr>))
           (Some container) mouseX mouseY = Some after"
  shows "handleZoom unproject (Some container) delta mouseX mouseY (Some cam) =
     Some (translate (cam\<lparr>zoom := clamp (zoom cam + delta * zoom cam * 0.5) MIN_ZOOM MAX_ZOOM\<rparr>)
             (v_x after - v_x before) (v_z after - v_z before))"
  using assms by (simp add: handleZoom_def Let_def translate_def)

lemma handleZoom_anchor_doubled:
  assumes "movesWithCamera unproject"
    and "unprojectScreenCoords unproject (Some cam) (Some container) mouseX mouseY = Some before"
    and "unprojectScreenCoords unproject
           (Some (cam\<lparr>zoom := clamp (zoom cam + delta * zoom cam * 0.5) MIN_ZOOM MAX_ZOOM\<rparr>))
           (Some container) mouseX mouseY = Some after"
  shows "unprojectScreenCoords unproject
           (handleZoom unproject (Some container) delta mouseX mouseY (Some cam))
           (Some container) mouseX mouseY =
     Some \<lparr>v_x = v_x after + (v_x after - v_x before),
           v_y = v_y after,
           v_z = v_z after + (v_z after - v_z before)\<rparr>"
  unfolding handleZoom_translate [OF assms(2,3)]
  by (rule unprojectScreenCoords_translate [OF assms(1,3)])


text \<open>
  C5. Zoom-to-cursor asks that the anchor's screen coordinates unproject to the
  same ground point before and after \<open>handleZoom\<close>. The handler adds
  \<open>worldPosAfter - worldPosBefore\<close> to the camera position, which moves the point
  under the anchor twice as far as the zoom alone does, where subtracting it
  would hold it still. With the default camera on a screen of 1000 by 1000
  pixels and a zoom by 1 anchored at the middle of the right edge, the anchor
  unprojects to x = 1000000 / 30001 before the call and to x = 1000000 / 90003
  after it.
\<close>

theorem handleZoom_anchor_moves:
  "unprojectScreenCoords (orthographicUnproject 1) (Some defaultCamera) (Some squareContainer) 1000 500
     = Some \<lparr>v_x = 1000000 / 30001, v_y = 0, v_z = 0\<rparr>
   \<and> handleZoom (orthographicUnproject 1) (Some squareContainer) 1 1000 500 (Some defaultCamera)
     = Some \<lparr>position = \<lparr>v_x = - (1000000 / 90003), v_y = 50, v_z = 0\<rparr>, zoom = 1.5\<rparr>
   \<and> unprojectScreenCoords (orthographicUnproject 1)
       (handleZoom (orthographicUnproject 1) (Some squareContainer) 1 1000 500 (Some defaultCamera))
       (Some squareContainer) 1000 500
     = Some \<lparr>v_x = 1000000 / 90003, v_y = 0, v_z = 0\<rparr>"
proof -
  have z: "handleZoom (orthographicUnproject 1) (Some squareContainer) 1 1000 500 (Some defaultCamera)
     = Some \<lparr>position = \<lparr>v_x = - (1000000 / 90003), v_y = 50, v_z = 0\<rparr>, zoom = 1.5\<rparr>"
    by (simp add: handleZoom_def unprojectScreenCoords_orthographic Let_def clamp_def
        MIN_ZOOM_def MAX_ZOOM_def squareContainer_def defaultCamera_def)
  show ?thesis
    unfolding z
    by (simp add: unprojectScreenCoords_orthographic squareContainer_def defaultCamera_def)
qed



section \<open>The colour of a region outside the adjacency map\<close>

lemma nameHash_District_of_Columbia: "nameHash ''District of Columbia'' = 3092790457"
  by code_simp

lemma hashIndex_District_of_Columbia: "hashIndex ''District of Columbia'' = 7"
  unfolding hashIndex_def nameHash_District_of_Columbia
  by (simp add: jsRemainder_def stateColorPalette_def)

lemma adjacencyOf_District_of_Columbia: "adjacencyOf ''District of Columbia'' = None"
  by (simp add: adjacencyOf_def stateAdjacency_def)

lemma stateAdjacencyAt_District_of_Columbia:
  "stateAdjacencyAt ''District of Columbia'' = Undefined"
  by (simp add: stateAdjacencyAt_def adjacencyOf_District_of_Columbia objectPrototype_def)

lemma assignStateColors_District_of_Columbia:
  "assignStateColors [''District of Columbia''] ''District of Columbia'' = Some 0"
  by (simp add: assignStateColors_def sortedStates_def assignStep_def colorState_def
        stateAdjacencyAt_District_of_Columbia usedColors_def firstAvailable_empty)

text \<open>
  For a name without an entry in \<open>stateColorMap\<close>, and not inherited from
  \<open>Object.prototype\<close>, the lookup is the palette colour at the hash index, which
  is always inside the palette.
\<close>

lemma hashIndex_in_palette: "hashIndex stateName < length stateColorPalette"
proof -
  have len: "length stateColorPalette = 10" by (simp add: stateColorPalette_def)
  have "\<bar>jsRemainder (nameHash stateName) 10\<bar> \<le> \<bar>nameHash stateName\<bar> mod 10"
    by (simp add: jsRemainder_def abs_mult abs_sgn_eq)
  also have "\<dots> < 10" by simp
  finally have "nat \<bar>jsRemainder (nameHash stateName) 10\<bar> < 10" by simp
  then show ?thesis by (simp add: hashIndex_def len)
qed

lemma getStateColor_fallback:
  "m stateName = None \<Longrightarrow> \<not> inheritedName stateName \<Longrightarrow>
   getStateColor m stateName = Some (stateColorPalette ! hashIndex stateName)"
  by (simp add: getStateColor_def paletteAt_def hashIndex_in_palette)

text \<open>
  C9. A region absent from the adjacency map is to receive the palette colour at
  the index given by the hash of its name. \<open>getStateColor\<close> takes the hash
  branch when the name has no entry in \<open>stateColorMap\<close>, not when it has none in
  \<open>stateAdjacency\<close>. ``District of Columbia'' is absent from the adjacency map;
  once \<open>assignStateColors\<close> has been given it, it has the greedy index 0, and
  \<open>getStateColor\<close> returns the first palette colour, 3900150, where its hash
  index 7 gives 15485081.
\<close>

theorem getStateColor_unlisted_region:
  "adjacencyOf ''District of Columbia'' = None
   \<and> getStateColor (assignStateColors [''District of Columbia'']) ''District of Columbia''
       = Some 3900150
   \<and> hashIndex ''District of Columbia'' = 7
   \<and> paletteAt (hashIndex ''District of Columbia'') = Some 15485081"
  by (simp add: getStateColor_def assignStateColors_District_of_Columbia
        adjacencyOf_District_of_Columbia hashIndex_District_of_Columbia
        paletteAt_def stateColorPalette_def)


end
